theory Spec2Isabelle
  imports Main "HOL-Library.Word"
begin

section \<open>Common data: JSON values and HTTP responses\<close>

text \<open>
  JavaScript numbers that occur in the modelled code are millisecond timestamps, window
  lengths and request counters; they are integers far below \<open>2^53\<close> and are modelled as
  \<open>int\<close>.  A JSON body is a value of \<open>json\<close>; an object keeps its fields in the order
  the source writes them.

  Texts that the code only compares, concatenates and passes on (addresses, names,
  messages, keys, log lines, signed tokens) are byte strings, \<open>string\<close>.  A string whose
  length the code measures (a reset token, a password) is a \<open>jsstring\<close>: the list of its
  UTF-16 code units, so that \<open>length\<close> is JavaScript's \<open>.length\<close>.  \<open>js\<close> reads an ASCII
  text as a JavaScript string.
\<close>

type_synonym jsstring = "16 word list"

definition js :: "string \<Rightarrow> jsstring" where
  "js s = map (\<lambda>c. of_nat (of_char c)) s"

datatype json =
    JNull
  | JBool bool
  | JNum int
  | JStr string
  | JArr "json list"
  | JObj "(string \<times> json) list"

record response =
  status :: nat
  body :: json

text \<open>\<open>res.status(c).json(b)\<close>; \<open>res.json(b)\<close> keeps Express's default status 200.\<close>

definition status_json :: "nat \<Rightarrow> json \<Rightarrow> response" where
  "status_json c b = \<lparr>status = c, body = b\<rparr>"

definition res_json :: "json \<Rightarrow> response" where
  "res_json b = status_json 200 b"

text \<open>JavaScript truthiness of a possibly absent string: \<open>undefined\<close> and \<open>''\<close> are falsy.\<close>

fun truthy :: "'a list option \<Rightarrow> bool" where
  "truthy None = False"
| "truthy (Some s) = (s \<noteq> [])"

text \<open>\<open>a || b\<close> on a possibly absent string and a default.\<close>

fun or_default :: "'a list option \<Rightarrow> 'a list \<Rightarrow> 'a list" where
  "or_default None d = d"
| "or_default (Some s) d = (if s = [] then d else s)"

section \<open>Rate limiter (server/src/middleware/rateLimiter.ts)\<close>

record RateLimitEntry =
  count :: int
  resetTime :: int

text \<open>The module-level \<open>rateLimitStore = new Map<string, RateLimitEntry>()\<close>.\<close>

type_synonym rateLimitStore = "string \<Rightarrow> RateLimitEntry option"

text \<open>What the key generators read of a request: \<open>req.ip\<close> and \<open>req.body?.email\<close>.\<close>

record limiter_request =
  ip :: "string option"
  body_email :: "string option"

record RateLimitOptions =
  windowMs :: int
  maxRequests :: int
  message :: "string option"
  keyGenerator :: "(limiter_request \<Rightarrow> string) option"

definition default_message :: string where
  "default_message = ''Too many requests. Please try again later.''"

definition default_keyGenerator :: "limiter_request \<Rightarrow> string" where
  "default_keyGenerator req = or_default (ip req) ''unknown''"

definition message_of :: "RateLimitOptions \<Rightarrow> string" where
  "message_of opts = (case message opts of None \<Rightarrow> default_message | Some m \<Rightarrow> m)"

definition key_of :: "RateLimitOptions \<Rightarrow> limiter_request \<Rightarrow> string" where
  "key_of opts req =
     (case keyGenerator opts of None \<Rightarrow> default_keyGenerator req | Some g \<Rightarrow> g req)"

text \<open>
  What the middleware does to the response: the headers it sets (name and numeric value,
  before \<open>toString\<close>), and either \<open>next()\<close> (\<open>rejected = None\<close>) or the 429 response.
\<close>

record limiter_result =
  headers :: "(string \<times> int) list"
  rejected :: "response option"

text \<open>\<open>Math.ceil((entry.resetTime - now) / 1000)\<close> on integers.\<close>

definition retryAfterSeconds :: "int \<Rightarrow> int \<Rightarrow> int" where
  "retryAfterSeconds reset now = - ((now - reset) div 1000)"

text \<open>
  The middleware returned by \<open>createRateLimiter(options)\<close>, run on the store, a request and
  the reading \<open>now\<close> of \<open>Date.now()\<close>.  \<open>entry.count++\<close> mutates the object held by the
  map, so the incremented entry is what the store holds afterwards.
\<close>

definition createRateLimiter ::
  "RateLimitOptions \<Rightarrow> rateLimitStore \<Rightarrow> limiter_request \<Rightarrow> int
     \<Rightarrow> rateLimitStore \<times> limiter_result" where
  "createRateLimiter opts store req now =
     (let key = key_of opts req;
          fresh = \<lparr>count = 1, resetTime = now + windowMs opts\<rparr>;
          fresh_result =
            (store(key \<mapsto> fresh),
             \<lparr>headers = [(''X-RateLimit-Limit'', maxRequests opts),
                          (''X-RateLimit-Remaining'', maxRequests opts - 1),
                          (''X-RateLimit-Reset'', resetTime fresh)],
              rejected = None\<rparr>)
      in case store key of
           None \<Rightarrow> fresh_result
         | Some entry0 \<Rightarrow>
             if resetTime entry0 < now then fresh_result
             else
               let entry = entry0\<lparr>count := count entry0 + 1\<rparr>;
                   store' = store(key \<mapsto> entry);
                   hs = [(''X-RateLimit-Limit'', maxRequests opts),
                         (''X-RateLimit-Remaining'', max 0 (maxRequests opts - count entry)),
                         (''X-RateLimit-Reset'', resetTime entry)]
               in if count entry > maxRequests opts then
                    let retryAfter = retryAfterSeconds (resetTime entry) now
                    in (store',
                        \<lparr>headers = hs @ [(''Retry-After'', retryAfter)],
                         rejected = Some (status_json 429
                           (JObj [(''error'', JStr (message_of opts)),
                                  (''retryAfter'', JNum retryAfter)]))\<rparr>)
                  else (store', \<lparr>headers = hs, rejected = None\<rparr>))"

text \<open>A call is admitted when the middleware calls \<open>next()\<close>.\<close>

definition admitted :: "rateLimitStore \<times> limiter_result \<Rightarrow> bool" where
  "admitted r = (rejected (snd r) = None)"

text \<open>The \<open>setInterval\<close> sweep, run at time \<open>now\<close>.\<close>

definition cleanup :: "rateLimitStore \<Rightarrow> int \<Rightarrow> rateLimitStore" where
  "cleanup store now =
     (\<lambda>k. case store k of
            None \<Rightarrow> None
          | Some entry \<Rightarrow> if resetTime entry < now then None else Some entry)"

text \<open>
  The key generators of the two specialised limiters call \<open>String.prototype.toLowerCase\<close>,
  a function of the JavaScript runtime: it is the parameter \<open>lower\<close>.
\<close>

definition forgotPasswordLimiter :: "(string \<Rightarrow> string) \<Rightarrow> RateLimitOptions" where
  "forgotPasswordLimiter lower =
     \<lparr>windowMs = 15 * 60 * 1000,
      maxRequests = 3,
      message = Some ''Too many password reset requests. Please try again in 15 minutes.'',
      keyGenerator = Some (\<lambda>req.
        ''forgot-password:'' @ or_default (ip req) ''unknown'' @ '':''
          @ or_default (map_option lower (body_email req)) [])\<rparr>"

definition loginLimiter :: "(string \<Rightarrow> string) \<Rightarrow> RateLimitOptions" where
  "loginLimiter lower =
     \<lparr>windowMs = 15 * 60 * 1000,
      maxRequests = 10,
      message = Some ''Too many login attempts. Please try again in 15 minutes.'',
      keyGenerator = Some (\<lambda>req.
        ''login:'' @ or_default (ip req) ''unknown'' @ '':''
          @ or_default (map_option lower (body_email req)) [])\<rparr>"

definition generalLimiter :: RateLimitOptions where
  "generalLimiter =
     \<lparr>windowMs = 60 * 1000,
      maxRequests = 100,
      message = Some ''Too many requests. Please slow down.'',
      keyGenerator = None\<rparr>"

text \<open>Successive calls of one limiter for one request, at the given readings of the clock.\<close>

fun run_limiter ::
  "RateLimitOptions \<Rightarrow> rateLimitStore \<Rightarrow> limiter_request \<Rightarrow> int list \<Rightarrow> rateLimitStore" where
  "run_limiter opts store req [] = store"
| "run_limiter opts store req (t # ts) =
     run_limiter opts (fst (createRateLimiter opts store req t)) req ts"

section \<open>Documents and collections (server/src/models)\<close>

text \<open>
  A collection is the list of its documents in insertion order.  \<open>_id\<close> values are
  natural numbers; the identifier of a created document is supplied by the environment,
  as MongoDB's driver generates it.  The \<open>createdAt\<close>/\<open>updatedAt\<close> stamps that Mongoose
  maintains by itself are left out.  The User schema is not among the sources: a user
  carries the fields the controllers read.
\<close>

type_synonym objectId = nat

record user =
  u_id :: objectId
  u_name :: string
  u_email :: string
  u_passwordHash :: "string option"
  u_googleId :: "string option"
  u_role :: string
  u_section :: string
  u_branch :: string
  u_profilePic :: string
  u_reputation :: int

record refresh_token =
  rt_id :: objectId
  rt_userId :: objectId
  rt_token :: string
  rt_expiresAt :: int

record password_reset =
  pr_id :: objectId
  pr_userId :: objectId
  pr_tokenHash :: string
  pr_expiresAt :: int
  pr_used :: bool

record database =
  users :: "user list"
  refreshTokens :: "refresh_token list"
  passwordResets :: "password_reset list"

text \<open>The Mongoose operations the controllers use.  \<open>findOne\<close> is \<^const>\<open>find\<close>.\<close>

definition updateMany :: "('a \<Rightarrow> bool) \<Rightarrow> ('a \<Rightarrow> 'a) \<Rightarrow> 'a list \<Rightarrow> 'a list" where
  "updateMany P f docs = map (\<lambda>d. if P d then f d else d) docs"

fun deleteOne :: "('a \<Rightarrow> bool) \<Rightarrow> 'a list \<Rightarrow> 'a list" where
  "deleteOne P [] = []"
| "deleteOne P (d # docs) = (if P d then docs else d # deleteOne P docs)"

definition deleteMany :: "('a \<Rightarrow> bool) \<Rightarrow> 'a list \<Rightarrow> 'a list" where
  "deleteMany P docs = filter (\<lambda>d. \<not> P d) docs"

text \<open>\<open>doc.save()\<close>: the document with the same \<open>_id\<close> is replaced.\<close>

definition save_user :: "user \<Rightarrow> user list \<Rightarrow> user list" where
  "save_user u docs = map (\<lambda>d. if u_id d = u_id u then u else d) docs"

definition save_reset :: "password_reset \<Rightarrow> password_reset list \<Rightarrow> password_reset list" where
  "save_reset r docs = map (\<lambda>d. if pr_id d = pr_id r then r else d) docs"

section \<open>Environment of a request\<close>

text \<open>
  Functions of the repository that are not among the sources (\<open>utils/jwt\<close>, the User
  model's \<open>comparePassword\<close> and pre-save hashing hook) and functions of the runtime and
  of third-party libraries are parameters:
  \<^item> \<open>toLowerCase\<close> is \<open>String.prototype.toLowerCase\<close>;
  \<^item> \<open>sha256 s\<close> is \<open>crypto.createHash('sha256').update(s).digest('hex')\<close>;
  \<^item> \<open>validator_length s\<close> is the length that \<open>isLength\<close> of validator.js compares with
    \<open>min\<close> and \<open>max\<close>: not \<open>s.length\<close>, since a surrogate pair is counted once;
  \<^item> \<open>verifyRefreshToken\<close> returns the \<open>userId\<close> of the payload, or \<open>None\<close> where it throws.
\<close>

record lib =
  toLowerCase :: "string \<Rightarrow> string"
  sha256 :: "jsstring \<Rightarrow> string"
  validator_length :: "jsstring \<Rightarrow> nat"
  verifyRefreshToken :: "string \<Rightarrow> objectId option"
  generateAccessToken :: "user \<Rightarrow> string"
  generateRefreshToken :: "user \<Rightarrow> string"
  comparePassword :: "user \<Rightarrow> jsstring \<Rightarrow> bool"
  hashPassword :: "jsstring \<Rightarrow> string"

text \<open>The module-level \<open>transporter\<close> of utils/email (the port is left out).\<close>

record transporter_config =
  t_host :: string
  t_secure :: bool
  t_user :: string
  t_pass :: string

text \<open>
  What one request reads from outside the database: the clock, the random source, the
  identifier of a document it creates, the mail transport and the process environment.
  \<open>fault = Some k\<close> says that the \<open>k\<close>-th awaited call of the handler on a model or a
  document (counted from 0 along the path executed; each is recorded as an \<open>Await\<close>
  effect) rejects, which sends the handler to its \<open>catch\<close> block;
  \<open>sendMail_error = Some e\<close> says that \<open>transporter.sendMail\<close> rejects with \<open>e\<close>.
\<close>

record env =
  Date_now :: int
  randomSource :: "nat \<Rightarrow> 8 word"
  newObjectId :: objectId
  fault :: "nat option"
  transporter :: "transporter_config option"
  sendMail_error :: "string option"
  FRONTEND_URL :: "string option"
  SMTP_USER :: "string option"

text \<open>\<open>crypto.randomBytes(n)\<close> and \<open>Buffer.toString('hex')\<close>.\<close>

definition randomBytes :: "env \<Rightarrow> nat \<Rightarrow> 8 word list" where
  "randomBytes e n = map (randomSource e) [0..<n]"

definition hex_digit :: "nat \<Rightarrow> char" where
  "hex_digit n = ''0123456789abcdef'' ! n"

definition hex_byte :: "8 word \<Rightarrow> string" where
  "hex_byte b = [hex_digit (unat b div 16), hex_digit (unat b mod 16)]"

definition toHex :: "8 word list \<Rightarrow> string" where
  "toHex bs = concat (map hex_byte bs)"

text \<open>A code unit that is a hexadecimal digit.\<close>

definition is_hex_unit :: "16 word \<Rightarrow> bool" where
  "is_hex_unit u = (u \<in> set (js ''0123456789abcdefABCDEF''))"

text \<open>What a handler does besides answering, in order.\<close>

record mail =
  m_from :: string
  m_to :: string
  m_subject :: string
  m_userName :: string
  m_resetUrl :: string

datatype effect =
    Await string
  | RandomBytes nat
  | Hash jsstring
  | ConsoleLog "string list"
  | ConsoleError "string list"
  | SendMail mail

record result =
  res :: response
  db_after :: database
  effects :: "effect list"

text \<open>
  A \<open>catch\<close> block: \<open>console.error(label, error)\<close> (the error object is not modelled) and
  the handler's failure response.
\<close>

definition caught :: "string \<Rightarrow> response \<Rightarrow> database \<Rightarrow> effect list \<Rightarrow> result" where
  "caught label r db tr = \<lparr>res = r, db_after = db, effects = tr @ [ConsoleError [label]]\<rparr>"

fun is_console :: "effect \<Rightarrow> bool" where
  "is_console (ConsoleLog _) = True"
| "is_console (ConsoleError _) = True"
| "is_console _ = False"

definition console_of :: "effect list \<Rightarrow> effect list" where
  "console_of tr = filter is_console tr"

section \<open>Mail delivery (utils/email: sendPasswordResetEmail)\<close>

text \<open>
  The HTML and text bodies are fixed templates into which \<open>userName\<close> and \<open>resetUrl\<close>
  (and the current year) are interpolated; a \<open>mail\<close> keeps the two interpolated values.
  Log lines are byte strings: the leading symbols are written as their UTF-8 bytes.
  The function catches the rejection of \<open>sendMail\<close> itself and never throws.
\<close>

definition resetUrl_of :: "env \<Rightarrow> string \<Rightarrow> string" where
  "resetUrl_of e resetToken =
     or_default (FRONTEND_URL e) ''http://localhost:3000''
       @ ''/auth/reset-password?token='' @ resetToken"

definition sendPasswordResetEmail ::
  "env \<Rightarrow> string \<Rightarrow> string \<Rightarrow> string \<Rightarrow> bool \<times> effect list" where
  "sendPasswordResetEmail e email resetToken userName =
     (case transporter e of
        None \<Rightarrow>
          (True,
           [ConsoleError [''Email service not configured''],
            ConsoleLog [[CHR 0xF0, CHR 0x9F, CHR 0x93, CHR 0xA7]
                          @ '' Password Reset Email (Development Mode):''],
            ConsoleLog [''   To: '' @ email],
            ConsoleLog [''   Reset URL: '' @ resetUrl_of e resetToken],
            ConsoleLog [''   Token expires in 15 minutes'']])
      | Some t \<Rightarrow>
          let mailOptions =
                \<lparr>m_from = [CHR 0x22] @ ''NoteMitra'' @ [CHR 0x22] @ '' <''
                            @ (case SMTP_USER e of None \<Rightarrow> ''undefined'' | Some u \<Rightarrow> u) @ ''>'',
                 m_to = email,
                 m_subject = ''Password Reset Request - NoteMitra'',
                 m_userName = userName,
                 m_resetUrl = resetUrl_of e resetToken\<rparr>
          in (case sendMail_error e of
               None \<Rightarrow>
                 (True,
                  [SendMail mailOptions,
                   ConsoleLog [[CHR 0xE2, CHR 0x9C, CHR 0x85]
                                 @ '' Password reset email sent to '' @ email]])
             | Some err \<Rightarrow>
                 (False,
                  [SendMail mailOptions,
                   ConsoleError [[CHR 0xE2, CHR 0x9D, CHR 0x8C]
                                   @ '' Failed to send password reset email:'', err]])))"

section \<open>Request validation (server/src/middleware/validators.ts)\<close>

text \<open>
  An error of express-validator, reduced to the field and the message.  Every validator
  of a chain runs (there is no \<open>bail\<close>), each failure adding its error; an absent field
  is validated as the empty string.  \<open>notEmpty\<close> asks for a string of \<open>.length\<close> other than
  zero; \<open>isLength\<close> compares the library's own length, \<open>validator_length\<close>.
\<close>

record verror =
  v_path :: string
  v_msg :: string

definition errors_json :: "verror list \<Rightarrow> json" where
  "errors_json es =
     JObj [(''errors'',
            JArr (map (\<lambda>e. JObj [(''msg'', JStr (v_msg e)), (''path'', JStr (v_path e))]) es))]"

record reset_body =
  rb_token :: "jsstring option"
  rb_password :: "jsstring option"
  rb_confirmPassword :: "jsstring option"

definition check :: "bool \<Rightarrow> string \<Rightarrow> string \<Rightarrow> verror list" where
  "check ok path msg = (if ok then [] else [\<lparr>v_path = path, v_msg = msg\<rparr>])"

definition validateResetPassword :: "lib \<Rightarrow> reset_body \<Rightarrow> verror list" where
  "validateResetPassword l b =
     check (truthy (rb_token b)) ''token'' ''Reset token is required''
     @ check (validator_length l (or_default (rb_token b) []) = 64)
         ''token'' ''Invalid reset token format''
     @ check (truthy (rb_password b)) ''password'' ''Password is required''
     @ check (8 \<le> validator_length l (or_default (rb_password b) []))
         ''password'' ''Password must be at least 8 characters''
     @ check (truthy (rb_confirmPassword b)) ''confirmPassword'' ''Confirm password is required''
     @ check (rb_confirmPassword b = rb_password b) ''confirmPassword'' ''Passwords do not match''"

section \<open>PasswordReset statics (models/PasswordReset)\<close>

text \<open>The query \<open>{tokenHash, used: false, expiresAt: {$gt: new Date()}}\<close>.\<close>

definition valid_reset :: "string \<Rightarrow> int \<Rightarrow> password_reset \<Rightarrow> bool" where
  "valid_reset tokenHash now d =
     (pr_tokenHash d = tokenHash \<and> \<not> pr_used d \<and> now < pr_expiresAt d)"

definition generateToken :: "env \<Rightarrow> string" where
  "generateToken e = toHex (randomBytes e 32)"

definition hashToken :: "lib \<Rightarrow> jsstring \<Rightarrow> string" where
  "hashToken l token = sha256 l token"

text \<open>\<open>updateMany({userId, used: false}, {used: true})\<close>.\<close>

definition invalidate_resets :: "objectId \<Rightarrow> password_reset list \<Rightarrow> password_reset list" where
  "invalidate_resets userId docs =
     updateMany (\<lambda>d. pr_userId d = userId \<and> \<not> pr_used d) (\<lambda>d. d\<lparr>pr_used := True\<rparr>) docs"

definition new_reset :: "env \<Rightarrow> objectId \<Rightarrow> string \<Rightarrow> password_reset" where
  "new_reset e userId tokenHash =
     \<lparr>pr_id = newObjectId e,
      pr_userId = userId,
      pr_tokenHash = tokenHash,
      pr_expiresAt = Date_now e + 15 * 60 * 1000,
      pr_used = False\<rparr>"

text \<open>\<open>createReset(userId)\<close>: the collection afterwards, \<open>resetDoc\<close> and \<open>plainToken\<close>.\<close>

definition createReset ::
  "lib \<Rightarrow> env \<Rightarrow> password_reset list \<Rightarrow> objectId
     \<Rightarrow> password_reset list \<times> password_reset \<times> string" where
  "createReset l e docs userId =
     (let docs1 = invalidate_resets userId docs;
          plainToken = toHex (randomBytes e 32);
          tokenHash = sha256 l (js plainToken);
          resetDoc = new_reset e userId tokenHash
      in (docs1 @ [resetDoc], resetDoc, plainToken))"

definition verifyToken ::
  "lib \<Rightarrow> env \<Rightarrow> password_reset list \<Rightarrow> jsstring \<Rightarrow> password_reset option" where
  "verifyToken l e docs token = find (valid_reset (sha256 l token) (Date_now e)) docs"

section \<open>Auth controller (controllers/authController)\<close>

text \<open>
  A handler takes the parameters, the environment of the request, the database, and what
  it reads of the request; \<open>errors\<close> is \<open>validationResult(req)\<close>.  It yields the response,
  the database afterwards and its effects.
\<close>

definition json_error :: "string \<Rightarrow> json" where
  "json_error msg = JObj [(''error'', JStr msg)]"

subsection \<open>login\<close>

definition user_json :: "user \<Rightarrow> json" where
  "user_json u =
     JObj [(''id'', JNum (int (u_id u))),
           (''name'', JStr (u_name u)),
           (''email'', JStr (u_email u)),
           (''role'', JStr (u_role u)),
           (''section'', JStr (u_section u)),
           (''branch'', JStr (u_branch u)),
           (''profilePic'', JStr (u_profilePic u)),
           (''reputation'', JNum (u_reputation u))]"

definition login_failed :: response where
  "login_failed = status_json 500 (json_error ''Login failed'')"

definition login ::
  "lib \<Rightarrow> env \<Rightarrow> database \<Rightarrow> verror list \<Rightarrow> string \<Rightarrow> jsstring \<Rightarrow> result" where
  "login l e db errors email password =
     (if errors \<noteq> [] then
        \<lparr>res = status_json 400 (errors_json errors), db_after = db, effects = []\<rparr>
      else if fault e = Some 0 then
        caught ''Login error:'' login_failed db [Await ''User.findOne'']
      else
        (case find (\<lambda>u. u_email u = email) (users db) of
           None \<Rightarrow>
             \<lparr>res = status_json 401 (json_error ''Invalid credentials''),
              db_after = db, effects = [Await ''User.findOne'']\<rparr>
         | Some user \<Rightarrow>
             (let tr1 = [Await ''User.findOne'', Await ''user.comparePassword'']
              in if fault e = Some 1 then caught ''Login error:'' login_failed db tr1
                 else if \<not> comparePassword l user password then
                   \<lparr>res = status_json 401 (json_error ''Invalid credentials''),
                    db_after = db, effects = tr1\<rparr>
                 else
                   (let accessToken = generateAccessToken l user;
                        refreshToken = generateRefreshToken l user;
                        tr2 = tr1 @ [Await ''RefreshToken.create'']
                    in if fault e = Some 2 then caught ''Login error:'' login_failed db tr2
                       else
                         \<lparr>res = res_json
                            (JObj [(''message'', JStr ''Login successful''),
                                   (''user'', user_json user),
                                   (''accessToken'', JStr accessToken),
                                   (''refreshToken'', JStr refreshToken)]),
                          db_after = db\<lparr>refreshTokens := refreshTokens db @
                            [\<lparr>rt_id = newObjectId e,
                              rt_userId = u_id user,
                              rt_token = refreshToken,
                              rt_expiresAt = Date_now e + 7 * 24 * 60 * 60 * 1000\<rparr>]\<rparr>,
                          effects = tr2\<rparr>))))"

subsection \<open>refreshAccessToken\<close>

text \<open>
  \<open>refreshToken\<close> is \<open>req.body.refreshToken\<close>, absent or a string.  Whatever is thrown
  inside the \<open>try\<close>, by \<open>verifyRefreshToken\<close> or by a persistence call, is answered
  with 401.
\<close>

definition refresh_invalid :: response where
  "refresh_invalid = status_json 401 (json_error ''Invalid refresh token'')"

definition refreshAccessToken :: "lib \<Rightarrow> env \<Rightarrow> database \<Rightarrow> string option \<Rightarrow> result" where
  "refreshAccessToken l e db refreshToken =
     (case refreshToken of
        None \<Rightarrow>
          \<lparr>res = status_json 400 (json_error ''Refresh token required''),
           db_after = db, effects = []\<rparr>
      | Some token \<Rightarrow>
          if token = [] then
            \<lparr>res = status_json 400 (json_error ''Refresh token required''),
             db_after = db, effects = []\<rparr>
          else
            (case verifyRefreshToken l token of
               None \<Rightarrow> caught ''Token refresh error:'' refresh_invalid db []
             | Some userId \<Rightarrow>
                 if fault e = Some 0 then
                   caught ''Token refresh error:'' refresh_invalid db [Await ''RefreshToken.findOne'']
                 else
                   (case find (\<lambda>d. rt_token d = token \<and> rt_userId d = userId) (refreshTokens db) of
                      None \<Rightarrow>
                        \<lparr>res = status_json 401 (json_error ''Invalid refresh token''),
                         db_after = db, effects = [Await ''RefreshToken.findOne'']\<rparr>
                    | Some storedToken \<Rightarrow>
                        if rt_expiresAt storedToken < Date_now e then
                          (let tr1 = [Await ''RefreshToken.findOne'', Await ''RefreshToken.deleteOne'']
                           in if fault e = Some 1 then
                                caught ''Token refresh error:'' refresh_invalid db tr1
                              else
                                \<lparr>res = status_json 401 (json_error ''Refresh token expired''),
                                 db_after = db\<lparr>refreshTokens :=
                                   deleteOne (\<lambda>d. rt_id d = rt_id storedToken) (refreshTokens db)\<rparr>,
                                 effects = tr1\<rparr>)
                        else
                          (let tr1 = [Await ''RefreshToken.findOne'', Await ''User.findById'']
                           in if fault e = Some 1 then
                                caught ''Token refresh error:'' refresh_invalid db tr1
                              else
                                (case find (\<lambda>u. u_id u = userId) (users db) of
                                   None \<Rightarrow>
                                     \<lparr>res = status_json 404 (json_error ''User not found''),
                                      db_after = db, effects = tr1\<rparr>
                                 | Some user \<Rightarrow>
                                     \<lparr>res = res_json
                                        (JObj [(''accessToken'', JStr (generateAccessToken l user))]),
                                      db_after = db, effects = tr1\<rparr>)))))"

subsection \<open>forgotPassword\<close>

definition successMessage :: string where
  "successMessage =
     ''If an account with that email exists, a password reset link has been sent.''"

definition forgot_ok :: response where
  "forgot_ok = res_json (JObj [(''message'', JStr successMessage)])"

definition forgot_failed :: response where
  "forgot_failed = status_json 500 (json_error ''Failed to process request. Please try again.'')"

definition forgotPassword :: "lib \<Rightarrow> env \<Rightarrow> database \<Rightarrow> verror list \<Rightarrow> string \<Rightarrow> result" where
  "forgotPassword l e db errors email =
     (if errors \<noteq> [] then
        \<lparr>res = status_json 400 (errors_json errors), db_after = db, effects = []\<rparr>
      else if fault e = Some 0 then
        caught ''Forgot password error:'' forgot_failed db [Await ''User.findOne'']
      else
        (case find (\<lambda>u. u_email u = toLowerCase l email) (users db) of
           None \<Rightarrow> \<lparr>res = forgot_ok, db_after = db, effects = [Await ''User.findOne'']\<rparr>
         | Some user \<Rightarrow>
             if truthy (u_googleId user) \<and> \<not> truthy (u_passwordHash user) then
               \<lparr>res = forgot_ok, db_after = db, effects = [Await ''User.findOne'']\<rparr>
             else
               (let plainToken = toHex (randomBytes e 32);
                    tokenHash = sha256 l (js plainToken);
                    tr1 = [Await ''User.findOne'', RandomBytes 32, Hash (js plainToken),
                           Await ''PasswordReset.updateMany'']
                in if fault e = Some 1 then
                     caught ''Forgot password error:'' forgot_failed db tr1
                   else
                     (let db1 = db\<lparr>passwordResets :=
                                  invalidate_resets (u_id user) (passwordResets db)\<rparr>;
                          tr2 = tr1 @ [Await ''PasswordReset.create'']
                      in if fault e = Some 2 then
                           caught ''Forgot password error:'' forgot_failed db1 tr2
                         else
                           (let db2 = db1\<lparr>passwordResets :=
                                        passwordResets db1 @ [new_reset e (u_id user) tokenHash]\<rparr>;
                                sent = sendPasswordResetEmail e email plainToken (u_name user)
                            in \<lparr>res = forgot_ok, db_after = db2,
                                effects = tr2 @ snd sent\<rparr>)))))"

subsection \<open>resetPassword\<close>

text \<open>
  The body is the one the validators saw.  Without a token, \<open>update(token)\<close> of the hash
  throws; the pre-save hook of the User model hashes the assigned password.
\<close>

definition reset_failed :: response where
  "reset_failed = status_json 500 (json_error ''Failed to reset password. Please try again.'')"

definition reset_invalid :: response where
  "reset_invalid = status_json 400
     (json_error ''Invalid or expired reset token. Please request a new password reset.'')"

definition reset_ok :: response where
  "reset_ok = res_json (JObj [(''message'',
     JStr ''Password has been reset successfully. Please log in with your new password.'')])"

definition resetPassword :: "lib \<Rightarrow> env \<Rightarrow> database \<Rightarrow> verror list \<Rightarrow> reset_body \<Rightarrow> result" where
  "resetPassword l e db errors b =
     (if errors \<noteq> [] then
        \<lparr>res = status_json 400 (errors_json errors), db_after = db, effects = []\<rparr>
      else
        (case rb_token b of
           None \<Rightarrow> caught ''Reset password error:'' reset_failed db []
         | Some token \<Rightarrow>
             (let tokenHash = sha256 l token;
                  tr0 = [Hash token, Await ''PasswordReset.findOne'']
              in if fault e = Some 0 then caught ''Reset password error:'' reset_failed db tr0
                 else
                   (case find (valid_reset tokenHash (Date_now e)) (passwordResets db) of
                      None \<Rightarrow> \<lparr>res = reset_invalid, db_after = db, effects = tr0\<rparr>
                    | Some resetRecord \<Rightarrow>
                        (let tr1 = tr0 @ [Await ''User.findById'']
                         in if fault e = Some 1 then
                              caught ''Reset password error:'' reset_failed db tr1
                            else
                              (case find (\<lambda>u. u_id u = pr_userId resetRecord) (users db) of
                                 None \<Rightarrow>
                                   \<lparr>res = status_json 400 (json_error ''User not found''),
                                    db_after = db, effects = tr1\<rparr>
                               | Some user \<Rightarrow>
                                   (let tr2 = tr1 @ [Await ''user.save''];
                                        tr3 = tr2 @ [Await ''resetRecord.save''];
                                        tr4 = tr3 @ [Await ''RefreshToken.deleteMany''];
                                        db1 = db\<lparr>users := save_user
                                          (user\<lparr>u_passwordHash :=
                                             map_option (hashPassword l) (rb_password b)\<rparr>)
                                          (users db)\<rparr>;
                                        db2 = db1\<lparr>passwordResets := save_reset
                                          (resetRecord\<lparr>pr_used := True\<rparr>) (passwordResets db1)\<rparr>;
                                        db3 = db2\<lparr>refreshTokens := deleteMany
                                          (\<lambda>d. rt_userId d = u_id user) (refreshTokens db2)\<rparr>
                                    in if fault e = Some 2 then
                                         caught ''Reset password error:'' reset_failed db tr2
                                       else if fault e = Some 3 then
                                         caught ''Reset password error:'' reset_failed db1 tr3
                                       else if fault e = Some 4 then
                                         caught ''Reset password error:'' reset_failed db2 tr4
                                       else
                                         \<lparr>res = reset_ok, db_after = db3, effects = tr4\<rparr>)))))))"

subsection \<open>verifyResetToken\<close>

text \<open>
  \<open>token\<close> is the route parameter \<open>req.params.token\<close>; \<open>token.length\<close> counts UTF-16 code
  units.
\<close>

definition verifyResetToken :: "lib \<Rightarrow> env \<Rightarrow> database \<Rightarrow> jsstring \<Rightarrow> result" where
  "verifyResetToken l e db token =
     (if token = [] \<or> length token \<noteq> 64 then
        \<lparr>res = status_json 400
           (JObj [(''valid'', JBool False), (''error'', JStr ''Invalid token format'')]),
         db_after = db, effects = []\<rparr>
      else
        (let tokenHash = sha256 l token;
             tr0 = [Hash token, Await ''PasswordReset.findOne'']
         in if fault e = Some 0 then
              caught ''Verify reset token error:''
                (status_json 500
                   (JObj [(''valid'', JBool False), (''error'', JStr ''Failed to verify token'')]))
                db tr0
            else
              (case find (valid_reset tokenHash (Date_now e)) (passwordResets db) of
                 None \<Rightarrow>
                   \<lparr>res = status_json 400
                      (JObj [(''valid'', JBool False),
                             (''error'', JStr ''Invalid or expired reset token'')]),
                    db_after = db, effects = tr0\<rparr>
               | Some resetRecord \<Rightarrow>
                   \<lparr>res = res_json (JObj [(''valid'', JBool True)]),
                    db_after = db, effects = tr0\<rparr>)))"

section \<open>Routes (server/src/routes/authRoutes.ts)\<close>

text \<open>\<open>router.post('/reset-password', validateResetPassword, resetPassword)\<close>.\<close>

definition reset_password_route :: "lib \<Rightarrow> env \<Rightarrow> database \<Rightarrow> reset_body \<Rightarrow> result" where
  "reset_password_route l e db b = resetPassword l e db (validateResetPassword l b) b"

section \<open>Notions used in the statements\<close>

text \<open>
  The user whose password a reset-password request changes when it succeeds: the owner of
  the first valid record for the token of the request.
\<close>

definition reset_target :: "lib \<Rightarrow> env \<Rightarrow> database \<Rightarrow> reset_body \<Rightarrow> objectId option" where
  "reset_target l e db b =
     (case rb_token b of
        None \<Rightarrow> None
      | Some token \<Rightarrow> map_option pr_userId (verifyToken l e (passwordResets db) token))"

text \<open>The reset records of a user that are unused, and those that are unused and unexpired.\<close>

definition unused_of :: "objectId \<Rightarrow> password_reset list \<Rightarrow> password_reset list" where
  "unused_of userId docs = filter (\<lambda>d. pr_userId d = userId \<and> \<not> pr_used d) docs"

definition active_of :: "objectId \<Rightarrow> int \<Rightarrow> password_reset list \<Rightarrow> password_reset list" where
  "active_of userId now docs =
     filter (\<lambda>d. pr_userId d = userId \<and> \<not> pr_used d \<and> now < pr_expiresAt d) docs"

text \<open>
  From one state of the collection to a later one, no record is lost and no used record
  becomes unused.
\<close>

definition used_preserved :: "password_reset list \<Rightarrow> password_reset list \<Rightarrow> bool" where
  "used_preserved docs docs' =
     (length docs \<le> length docs'
      \<and> list_all (\<lambda>(d, d'). pr_used d \<longrightarrow> pr_used d') (zip docs docs'))"

text \<open>
  Token hashes identify documents: the digests of independently drawn 32-byte tokens do
  not coincide, which the model cannot derive and the statements that need it assume.
\<close>

definition hashes_identify :: "password_reset list \<Rightarrow> bool" where
  "hashes_identify docs =
     (\<forall>d\<in>set docs. \<forall>d'\<in>set docs. pr_tokenHash d = pr_tokenHash d' \<longrightarrow> pr_id d = pr_id d')"

text \<open>A sequence of forgot-password requests, each with its own environment.\<close>

record forgot_call =
  fc_env :: env
  fc_errors :: "verror list"
  fc_email :: string

fun forgot_calls :: "lib \<Rightarrow> database \<Rightarrow> forgot_call list \<Rightarrow> database" where
  "forgot_calls l db [] = db"
| "forgot_calls l db (c # cs) =
     forgot_calls l (db_after (forgotPassword l (fc_env c) db (fc_errors c) (fc_email c))) cs"

text \<open>Every record that carries the digest belongs to the user.\<close>

definition hash_owned :: "string \<Rightarrow> objectId \<Rightarrow> password_reset list \<Rightarrow> bool" where
  "hash_owned h userId docs = (\<forall>d\<in>set docs. pr_tokenHash d = h \<longrightarrow> pr_userId d = userId)"

text \<open>The 429 answer of a limiter, with a given \<open>retryAfter\<close>.\<close>

definition too_many :: "RateLimitOptions \<Rightarrow> int \<Rightarrow> response" where
  "too_many opts r =
     status_json 429 (JObj [(''error'', JStr (message_of opts)), (''retryAfter'', JNum r)])"

section \<open>Concrete inputs\<close>

text \<open>
  Sample instances of the parameters.  They stand in for the runtime and the libraries
  on the sample data only: \<open>ascii_lower\<close> lower-cases the ASCII letters, \<open>narrow\<close> keeps the
  low byte of each code unit, and \<open>pairs_once\<close> is \<open>.length\<close> with each surrogate pair
  (a unit in \<open>D800..DBFF\<close> followed by one in \<open>DC00..DFFF\<close>) counted once.
\<close>

definition lower_char :: "char \<Rightarrow> char" where
  "lower_char c =
     (if 65 \<le> (of_char c :: nat) \<and> (of_char c :: nat) \<le> 90
      then char_of ((of_char c :: nat) + 32) else c)"

definition ascii_lower :: "string \<Rightarrow> string" where
  "ascii_lower s = map lower_char s"

definition narrow :: "jsstring \<Rightarrow> string" where
  "narrow s = map (\<lambda>u. char_of (unat u)) s"

definition is_high_surrogate :: "16 word \<Rightarrow> bool" where
  "is_high_surrogate u = (0xD800 \<le> unat u \<and> unat u \<le> 0xDBFF)"

definition is_low_surrogate :: "16 word \<Rightarrow> bool" where
  "is_low_surrogate u = (0xDC00 \<le> unat u \<and> unat u \<le> 0xDFFF)"

fun pairs_once :: "jsstring \<Rightarrow> nat" where
  "pairs_once [] = 0"
| "pairs_once [u] = 1"
| "pairs_once (u # v # us) =
     (if is_high_surrogate u \<and> is_low_surrogate v then Suc (pairs_once us)
      else Suc (pairs_once (v # us)))"

definition ex_lib :: lib where
  "ex_lib =
     \<lparr>toLowerCase = ascii_lower,
      sha256 = (\<lambda>s. ''h:'' @ narrow s),
      validator_length = pairs_once,
      verifyRefreshToken = (\<lambda>t. if t = ''jwt-7'' then Some 7 else None),
      generateAccessToken = (\<lambda>u. ''access-'' @ u_name u),
      generateRefreshToken = (\<lambda>u. ''refresh-'' @ u_name u),
      comparePassword = (\<lambda>u p. u_passwordHash u = Some (''bcrypt:'' @ narrow p)),
      hashPassword = (\<lambda>p. ''bcrypt:'' @ narrow p)\<rparr>"

text \<open>
  The forgot-password limiter, a request, its key, and two stores for the key: three
  requests counted in a window that ends at 1000, or at 5000.
\<close>

definition ex_limiter :: RateLimitOptions where
  "ex_limiter = forgotPasswordLimiter (toLowerCase ex_lib)"

definition ex_request :: limiter_request where
  "ex_request = \<lparr>ip = Some ''10.0.0.1'', body_email = Some ''A@mictech.edu.in''\<rparr>"

definition ex_key :: string where
  "ex_key = ''forgot-password:10.0.0.1:a@mictech.edu.in''"

definition ex_store :: rateLimitStore where
  "ex_store = Map.empty(ex_key \<mapsto> \<lparr>count = 3, resetTime = 1000\<rparr>)"

definition ex_store_long :: rateLimitStore where
  "ex_store_long = Map.empty(ex_key \<mapsto> \<lparr>count = 3, resetTime = 5000\<rparr>)"

text \<open>
  A sample environment and a small database: Alice has a password, Gina signed in
  through Google only.
\<close>

definition ex_env :: env where
  "ex_env =
     \<lparr>Date_now = 1000, randomSource = (\<lambda>i. 0xAB), newObjectId = 50, fault = None,
      transporter = None, sendMail_error = None, FRONTEND_URL = None, SMTP_USER = None\<rparr>"

definition ex_smtp :: transporter_config where
  "ex_smtp = \<lparr>t_host = ''smtp.gmail.com'', t_secure = False,
              t_user = ''noreply@mictech.edu.in'', t_pass = ''secret''\<rparr>"

definition ex_env_mail :: env where
  "ex_env_mail = ex_env\<lparr>transporter := Some ex_smtp,
                        SMTP_USER := Some ''noreply@mictech.edu.in''\<rparr>"

definition ex_env_mail_down :: env where
  "ex_env_mail_down = ex_env_mail\<lparr>sendMail_error := Some ''ECONNREFUSED''\<rparr>"

text \<open>The database answers reads and rejects writes: the second awaited call fails.\<close>

definition ex_env_write_fails :: env where
  "ex_env_write_fails = ex_env\<lparr>fault := Some 1\<rparr>"

definition ex_alice :: user where
  "ex_alice =
     \<lparr>u_id = 7, u_name = ''Alice'', u_email = ''a@mictech.edu.in'',
      u_passwordHash = Some ''bcrypt:password1'', u_googleId = None,
      u_role = ''student'', u_section = ''A'', u_branch = ''CSE'',
      u_profilePic = [], u_reputation = 0\<rparr>"

definition ex_gina :: user where
  "ex_gina =
     \<lparr>u_id = 8, u_name = ''Gina'', u_email = ''g@mictech.edu.in'',
      u_passwordHash = None, u_googleId = Some ''google-8'',
      u_role = ''student'', u_section = ''A'', u_branch = ''CSE'',
      u_profilePic = [], u_reputation = 0\<rparr>"

definition ex_session :: refresh_token where
  "ex_session = \<lparr>rt_id = 20, rt_userId = 7, rt_token = ''jwt-7'', rt_expiresAt = 5000\<rparr>"

definition ex_db :: database where
  "ex_db = \<lparr>users = [ex_alice, ex_gina], refreshTokens = [ex_session], passwordResets = []\<rparr>"

text \<open>The same sessions with no user left.\<close>

definition ex_db_orphan :: database where
  "ex_db_orphan = \<lparr>users = [], refreshTokens = [ex_session], passwordResets = []\<rparr>"

text \<open>
  Reset tokens: 64 times \<open>z\<close>, no hexadecimal digit among them; three characters; and two
  tokens that end in U+1F600, which is the surrogate pair \<open>D83D DE00\<close>: 62 times \<open>a\<close> and the
  pair has \<open>.length\<close> 64 and validator length 63, 63 times \<open>a\<close> and the pair has \<open>.length\<close> 65
  and validator length 64.
\<close>

definition ex_z_token :: jsstring where
  "ex_z_token = replicate 64 0x7A"

definition ex_abc_token :: jsstring where
  "ex_abc_token = js ''abc''"

definition ex_token_62 :: jsstring where
  "ex_token_62 = replicate 62 0x61 @ [0xD83D, 0xDE00]"

definition ex_token_63 :: jsstring where
  "ex_token_63 = replicate 63 0x61 @ [0xD83D, 0xDE00]"

definition ex_body :: "jsstring \<Rightarrow> reset_body" where
  "ex_body token = \<lparr>rb_token = Some token, rb_password = Some (js ''password2''),
                     rb_confirmPassword = Some (js ''password2'')\<rparr>"

text \<open>A body whose token has the right length and whose password is too short.\<close>

definition ex_weak_body :: reset_body where
  "ex_weak_body = \<lparr>rb_token = Some ex_z_token, rb_password = Some (js ''pw''),
                   rb_confirmPassword = Some (js ''pw'')\<rparr>"

text \<open>
  More sample data: the token that the sample random source yields, Alice's pending reset
  record for it, and a request that presents it a second later.
\<close>

definition ex_token :: string where
  "ex_token = concat (replicate 32 ''ab'')"

definition ex_pending :: password_reset where
  "ex_pending = \<lparr>pr_id = 50, pr_userId = 7, pr_tokenHash = ''h:'' @ ex_token,
                 pr_expiresAt = 901000, pr_used = False\<rparr>"

definition ex_db_pending :: database where
  "ex_db_pending = ex_db\<lparr>passwordResets := [ex_pending]\<rparr>"

definition ex_env_later :: env where
  "ex_env_later = ex_env\<lparr>Date_now := 2000, newObjectId := 51\<rparr>"

definition ex_reset_body :: reset_body where
  "ex_reset_body = ex_body (js ex_token)"

text \<open>Two forgot-password requests of Alice, the second with other random bytes.\<close>

definition ex_env2 :: env where
  "ex_env2 = ex_env\<lparr>Date_now := 2000, randomSource := (\<lambda>i. 0xCD), newObjectId := 51\<rparr>"

definition ex_token2 :: string where
  "ex_token2 = concat (replicate 32 ''cd'')"

definition ex_call1 :: forgot_call where
  "ex_call1 = \<lparr>fc_env = ex_env, fc_errors = [], fc_email = ''a@mictech.edu.in''\<rparr>"

definition ex_call2 :: forgot_call where
  "ex_call2 = \<lparr>fc_env = ex_env2, fc_errors = [], fc_email = ''a@mictech.edu.in''\<rparr>"

section \<open>Auxiliary facts\<close>

lemma find_SomeD: "find P xs = Some x \<Longrightarrow> x \<in> set xs \<and> P x"
  by (induction xs) (auto split: if_splits)

lemma of_char_bound: "(of_char c :: nat) < 256"
proof -
  have "(of_char c :: nat) mod 256 = of_char c" by simp
  then show ?thesis by (metis mod_less_divisor zero_less_numeral)
qed

lemma unat_unit: "unat (of_nat (of_char c) :: 16 word) = of_char c"
proof -
  have "(of_char c :: nat) < 65536" using of_char_bound [of c] by linarith
  then have "(of_char c :: nat) mod 65536 = of_char c" by (rule mod_less)
  then show ?thesis by (simp add: unat_of_nat)
qed

lemma narrow_js: "narrow (js s) = s"
  by (induction s) (simp_all add: narrow_def js_def unat_unit)

lemma js_inject: "js s = js t \<Longrightarrow> s = t"
  using narrow_js by metis

lemma ex_key_of: "key_of ex_limiter ex_request = ex_key"
  by code_simp

lemma ex_limiter_bounds: "windowMs ex_limiter = 900000" "maxRequests ex_limiter = 3"
  by (simp_all add: ex_limiter_def forgotPasswordLimiter_def)

lemma ex_env_fault:
  "fault ex_env = None" "fault ex_env_mail = None" "fault ex_env_mail_down = None"
  by (simp_all add: ex_env_def ex_env_mail_def ex_env_mail_down_def)

lemma ex_token_random: "toHex (randomBytes ex_env 32) = ex_token"
  by code_simp

lemma ex_sha: "sha256 ex_lib (js s) = ''h:'' @ s"
  by (simp add: ex_lib_def narrow_js)

lemma ex_lower:
  "toLowerCase ex_lib ''A@mictech.edu.in'' = ''a@mictech.edu.in''"
  "toLowerCase ex_lib ''a@mictech.edu.in'' = ''a@mictech.edu.in''"
  "toLowerCase ex_lib ''g@mictech.edu.in'' = ''g@mictech.edu.in''"
  "toLowerCase ex_lib ''nobody@mictech.edu.in'' = ''nobody@mictech.edu.in''"
  by code_simp+

lemma ex_find_alice:
  "find (\<lambda>u. u_email u = toLowerCase ex_lib ''A@mictech.edu.in'') (users ex_db) = Some ex_alice"
  "find (\<lambda>u. u_email u = toLowerCase ex_lib ''a@mictech.edu.in'') (users ex_db) = Some ex_alice"
  by (simp_all add: ex_lower ex_db_def ex_alice_def)

lemma ex_alice_capable:
  "\<not> (truthy (u_googleId ex_alice) \<and> \<not> truthy (u_passwordHash ex_alice))"
  by (simp add: ex_alice_def)

section \<open>The rate limiter's decision\<close>

lemma limiter_fresh:
  "store (key_of opts req) = None
     \<or> (\<exists>e. store (key_of opts req) = Some e \<and> resetTime e < now) \<Longrightarrow>
   createRateLimiter opts store req now =
     (store(key_of opts req \<mapsto> \<lparr>count = 1, resetTime = now + windowMs opts\<rparr>),
      \<lparr>headers = [(''X-RateLimit-Limit'', maxRequests opts),
                   (''X-RateLimit-Remaining'', maxRequests opts - 1),
                   (''X-RateLimit-Reset'', now + windowMs opts)],
       rejected = None\<rparr>)"
  by (auto simp: createRateLimiter_def Let_def)

lemma limiter_in_window:
  "store (key_of opts req) = Some e \<Longrightarrow> \<not> resetTime e < now \<Longrightarrow>
   fst (createRateLimiter opts store req now)
     = store(key_of opts req \<mapsto> e\<lparr>count := count e + 1\<rparr>)
   \<and> (admitted (createRateLimiter opts store req now) \<longleftrightarrow> count e + 1 \<le> maxRequests opts)"
  by (auto simp: createRateLimiter_def admitted_def Let_def)

lemma limiter_rejection:
  "store (key_of opts req) = Some e \<Longrightarrow> \<not> resetTime e < now \<Longrightarrow>
   maxRequests opts < count e + 1 \<Longrightarrow>
   rejected (snd (createRateLimiter opts store req now)) =
     Some (status_json 429 (JObj [(''error'', JStr (message_of opts)),
        (''retryAfter'', JNum (retryAfterSeconds (resetTime e) now))]))"
  by (auto simp: createRateLimiter_def admitted_def Let_def)

lemma limiter_other_key:
  "k \<noteq> key_of opts req \<Longrightarrow> fst (createRateLimiter opts store req now) k = store k"
  by (auto simp: createRateLimiter_def Let_def split: option.splits)

text \<open>The sweep removes only entries that the next call would replace anyway.\<close>

lemma cleanup_same_decision:
  "snd (createRateLimiter opts (cleanup store now) req now)
     = snd (createRateLimiter opts store req now)"
  by (auto simp: createRateLimiter_def cleanup_def Let_def split: option.splits)

lemma run_limiter_in_window:
  "store (key_of opts req) = Some e \<Longrightarrow> \<forall>t\<in>set ts. t \<le> resetTime e \<Longrightarrow>
   run_limiter opts store req ts (key_of opts req)
     = Some (e\<lparr>count := count e + int (length ts)\<rparr>)"
proof (induction ts arbitrary: store e)
  case Nil
  then show ?case by simp
next
  case (Cons t ts)
  have "fst (createRateLimiter opts store req t) (key_of opts req)
          = Some (e\<lparr>count := count e + 1\<rparr>)"
    using limiter_in_window [of store opts req e t] Cons.prems by simp
  then show ?case
    using Cons.IH [of "fst (createRateLimiter opts store req t)" "e\<lparr>count := count e + 1\<rparr>"]
      Cons.prems
    by simp
qed

lemma retryAfterSeconds_mono:
  "t1 \<le> t2 \<Longrightarrow> retryAfterSeconds r t2 \<le> retryAfterSeconds r t1"
  unfolding retryAfterSeconds_def by (simp add: zdiv_mono1)

text \<open>
  C7 (amended).  For every key: on the first call for the key, or when the stored window
  end lies strictly before \<open>now\<close>, the entry becomes \<open>count = 1\<close>,
  \<open>resetTime = now + windowMs\<close> and the call is admitted.  Otherwise, the instant
  \<open>now = resetTime\<close> included, \<open>count\<close> is incremented, \<open>resetTime\<close> is kept, and the call is
  admitted if and only if the incremented count is at most \<open>maxRequests\<close>.
\<close>

theorem C7_admission_decision:
  "((store (key_of opts req) = None
       \<or> (\<exists>e. store (key_of opts req) = Some e \<and> resetTime e < now)) \<longrightarrow>
      fst (createRateLimiter opts store req now) (key_of opts req)
        = Some \<lparr>count = 1, resetTime = now + windowMs opts\<rparr>
      \<and> admitted (createRateLimiter opts store req now))
   \<and> (\<forall>e. store (key_of opts req) = Some e \<and> now \<le> resetTime e \<longrightarrow>
      fst (createRateLimiter opts store req now) (key_of opts req)
        = Some (e\<lparr>count := count e + 1\<rparr>)
      \<and> (admitted (createRateLimiter opts store req now)
           \<longleftrightarrow> count e + 1 \<le> maxRequests opts))"
proof (intro conjI impI allI)
  assume a: "store (key_of opts req) = None
    \<or> (\<exists>e. store (key_of opts req) = Some e \<and> resetTime e < now)"
  from limiter_fresh [of store opts req now] a
  show "fst (createRateLimiter opts store req now) (key_of opts req)
        = Some \<lparr>count = 1, resetTime = now + windowMs opts\<rparr>"
    by simp
  from limiter_fresh [of store opts req now] a
  show "admitted (createRateLimiter opts store req now)"
    by (simp add: admitted_def)
next
  fix e
  assume a: "store (key_of opts req) = Some e \<and> now \<le> resetTime e"
  then have b: "store (key_of opts req) = Some e" and c: "\<not> resetTime e < now" by auto
  from limiter_in_window [of store opts req e now] b c
  show "fst (createRateLimiter opts store req now) (key_of opts req)
          = Some (e\<lparr>count := count e + 1\<rparr>)"
    by simp
  from limiter_in_window [of store opts req e now] b c
  show "admitted (createRateLimiter opts store req now) \<longleftrightarrow> count e + 1 \<le> maxRequests opts"
    by simp
qed

text \<open>
  The theorem at concrete calls of the forgot-password limiter: a first call, a call
  after the window's end, and a fourth call inside the window.
\<close>

theorem C7_admission_decision_witness:
  "fst (createRateLimiter ex_limiter Map.empty ex_request 500) ex_key
     = Some \<lparr>count = 1, resetTime = 900500\<rparr>
   \<and> admitted (createRateLimiter ex_limiter Map.empty ex_request 500)
   \<and> fst (createRateLimiter ex_limiter ex_store ex_request 1001) ex_key
     = Some \<lparr>count = 1, resetTime = 901001\<rparr>
   \<and> admitted (createRateLimiter ex_limiter ex_store ex_request 1001)
   \<and> fst (createRateLimiter ex_limiter ex_store ex_request 999) ex_key
     = Some \<lparr>count = 4, resetTime = 1000\<rparr>
   \<and> \<not> admitted (createRateLimiter ex_limiter ex_store ex_request 999)"
  using C7_admission_decision [of Map.empty ex_limiter ex_request 500]
    C7_admission_decision [of ex_store ex_limiter ex_request 1001]
    C7_admission_decision [of ex_store ex_limiter ex_request 999]
  by (simp add: ex_key_of) (simp add: ex_store_def ex_limiter_bounds)

text \<open>
  C7 as stated fails at the boundary instant: with three requests counted and the window
  ending at 1000, a call at \<open>now = 1000\<close> does not start a fresh window; it is counted as
  the fourth request of the old one and rejected.
\<close>

theorem C7_boundary_counterexample:
  "resetTime \<lparr>count = 3, resetTime = 1000\<rparr> \<le> 1000
   \<and> ex_store ex_key = Some \<lparr>count = 3, resetTime = 1000\<rparr>
   \<and> key_of ex_limiter ex_request = ex_key
   \<and> fst (createRateLimiter ex_limiter ex_store ex_request 1000) ex_key
       = Some \<lparr>count = 4, resetTime = 1000\<rparr>
   \<and> \<not> admitted (createRateLimiter ex_limiter ex_store ex_request 1000)"
proof -
  have s: "ex_store (key_of ex_limiter ex_request)
             = Some \<lparr>count = 3, resetTime = 1000\<rparr>"
    by (simp add: ex_key_of ex_store_def)
  from limiter_in_window [of ex_store ex_limiter ex_request
      "\<lparr>count = 3, resetTime = 1000\<rparr>" 1000] s
  show ?thesis
    by (simp add: ex_key_of) (simp add: ex_store_def ex_limiter_bounds)
qed

lemma retryAfterSeconds_ceiling:
  "reset - now \<le> 1000 * retryAfterSeconds reset now
   \<and> 1000 * retryAfterSeconds reset now < reset - now + 1000"
proof -
  have "(now - reset) = 1000 * ((now - reset) div 1000) + (now - reset) mod 1000"
    by simp
  moreover have "0 \<le> (now - reset) mod 1000" and "(now - reset) mod 1000 < 1000"
    by simp_all
  ultimately show ?thesis
    unfolding retryAfterSeconds_def by linarith
qed

lemma limiter_rejected_result:
  assumes "store (key_of opts req) = Some e" and "\<not> resetTime e < now"
    and "maxRequests opts < count e + 1"
  shows "snd (createRateLimiter opts store req now) =
     \<lparr>headers = [(''X-RateLimit-Limit'', maxRequests opts),
                  (''X-RateLimit-Remaining'', 0),
                  (''X-RateLimit-Reset'', resetTime e),
                  (''Retry-After'', retryAfterSeconds (resetTime e) now)],
      rejected = Some (too_many opts (retryAfterSeconds (resetTime e) now))\<rparr>"
  using assms by (simp add: createRateLimiter_def Let_def too_many_def)

lemma limiter_rejected_value:
  assumes "store (key_of opts req) = Some e" and "\<not> resetTime e < now"
    and "rejected (snd (createRateLimiter opts store req now)) = Some (too_many opts r)"
  shows "r = retryAfterSeconds (resetTime e) now"
  using assms
  by (simp add: createRateLimiter_def Let_def too_many_def status_json_def split: if_splits)

lemma run_limiter_snoc:
  "run_limiter opts store req (ts @ [t]) =
     fst (createRateLimiter opts (run_limiter opts store req ts) req t)"
  by (induction ts arbitrary: store) simp_all

text \<open>
  C10.  While a window is active (every call at a time before the stored \<open>resetTime\<close>),
  any number of calls for the key, admitted or rejected, leave \<open>resetTime\<close> as it is and
  add exactly one to \<open>count\<close> each, with no bound at \<open>maxRequests\<close>.  A further call in the
  window that exceeds the limit is answered 429, and its \<open>retryAfter\<close> (also the
  \<open>Retry-After\<close> header) is the number of seconds, rounded up, from the call to the
  unchanged window end: \<open>resetTime - now \<le> 1000 * retryAfter < resetTime - now + 1000\<close>.
  Of two rejected calls one after the other in the window, the later one gets a
  \<open>retryAfter\<close> that is positive and no larger than the earlier one's: rejected attempts
  never extend the lockout.
\<close>

theorem C10_window_end_fixed:
  assumes "store (key_of opts req) = Some e" and "\<forall>t\<in>set ts. t < resetTime e"
  shows "run_limiter opts store req ts (key_of opts req)
           = Some (e\<lparr>count := count e + int (length ts)\<rparr>)
    \<and> (\<forall>now. now < resetTime e \<and> maxRequests opts < count e + int (length ts) + 1 \<longrightarrow>
          (\<exists>r. snd (createRateLimiter opts (run_limiter opts store req ts) req now) =
                 \<lparr>headers = [(''X-RateLimit-Limit'', maxRequests opts),
                              (''X-RateLimit-Remaining'', 0),
                              (''X-RateLimit-Reset'', resetTime e),
                              (''Retry-After'', r)],
                  rejected = Some (too_many opts r)\<rparr>
               \<and> resetTime e - now \<le> 1000 * r \<and> 1000 * r < resetTime e - now + 1000))
    \<and> (\<forall>now1 now2 r1 r2. now1 \<le> now2 \<and> now2 < resetTime e
          \<and> rejected (snd (createRateLimiter opts (run_limiter opts store req ts) req now1))
              = Some (too_many opts r1)
          \<and> rejected (snd (createRateLimiter opts
                (run_limiter opts store req (ts @ [now1])) req now2))
              = Some (too_many opts r2)
          \<longrightarrow> 0 < r2 \<and> r2 \<le> r1)"
proof (intro conjI allI impI)
  from assms(2) have le: "\<forall>t\<in>set ts. t \<le> resetTime e" by auto
  from run_limiter_in_window [of store opts req e ts] assms(1) le
  show after: "run_limiter opts store req ts (key_of opts req)
           = Some (e\<lparr>count := count e + int (length ts)\<rparr>)" by simp
  {
    fix now
    assume a: "now < resetTime e \<and> maxRequests opts < count e + int (length ts) + 1"
    let ?e' = "e\<lparr>count := count e + int (length ts)\<rparr>"
    from a have "\<not> resetTime ?e' < now" and "maxRequests opts < count ?e' + 1" by simp_all
    from limiter_rejected_result [of "run_limiter opts store req ts" opts req ?e' now] after this
    have "snd (createRateLimiter opts (run_limiter opts store req ts) req now) =
            \<lparr>headers = [(''X-RateLimit-Limit'', maxRequests opts),
                         (''X-RateLimit-Remaining'', 0),
                         (''X-RateLimit-Reset'', resetTime e),
                         (''Retry-After'', retryAfterSeconds (resetTime e) now)],
             rejected = Some (too_many opts (retryAfterSeconds (resetTime e) now))\<rparr>"
      by simp
    with retryAfterSeconds_ceiling [of "resetTime e" now]
    show "\<exists>r. snd (createRateLimiter opts (run_limiter opts store req ts) req now) =
                 \<lparr>headers = [(''X-RateLimit-Limit'', maxRequests opts),
                              (''X-RateLimit-Remaining'', 0),
                              (''X-RateLimit-Reset'', resetTime e),
                              (''Retry-After'', r)],
                  rejected = Some (too_many opts r)\<rparr>
               \<and> resetTime e - now \<le> 1000 * r \<and> 1000 * r < resetTime e - now + 1000"
      by blast
  }
  fix now1 now2 r1 r2
  assume b: "now1 \<le> now2 \<and> now2 < resetTime e
          \<and> rejected (snd (createRateLimiter opts (run_limiter opts store req ts) req now1))
              = Some (too_many opts r1)
          \<and> rejected (snd (createRateLimiter opts
                (run_limiter opts store req (ts @ [now1])) req now2))
              = Some (too_many opts r2)"
  then have n1: "now1 < resetTime e" and n2: "now2 < resetTime e" and n12: "now1 \<le> now2"
    by simp_all
  let ?e1 = "e\<lparr>count := count e + int (length ts)\<rparr>"
  have "\<not> resetTime ?e1 < now1" using n1 by simp
  from limiter_rejected_value [of "run_limiter opts store req ts" opts req ?e1 now1 r1]
    after this b
  have r1: "r1 = retryAfterSeconds (resetTime e) now1" by simp
  from assms(2) n1 have "\<forall>t\<in>set (ts @ [now1]). t \<le> resetTime e" by auto
  from run_limiter_in_window [of store opts req e "ts @ [now1]"] assms(1) this
  have after2: "run_limiter opts store req (ts @ [now1]) (key_of opts req)
           = Some (e\<lparr>count := count e + int (length (ts @ [now1]))\<rparr>)" by simp
  let ?e2 = "e\<lparr>count := count e + int (length (ts @ [now1]))\<rparr>"
  have "\<not> resetTime ?e2 < now2" using n2 by simp
  from limiter_rejected_value [of "run_limiter opts store req (ts @ [now1])" opts req ?e2 now2 r2]
    after2 this b
  have r2: "r2 = retryAfterSeconds (resetTime e) now2" by simp
  from retryAfterSeconds_ceiling [of "resetTime e" now2] n2 r2
  show "0 < r2" by linarith
  from retryAfterSeconds_mono [OF n12, of "resetTime e"] r1 r2
  show "r2 \<le> r1" by simp
qed

text \<open>
  Three requests are counted in a window that ends at 5000.  Calls at 10, 2500 and 4999
  raise the count to six and keep the end; they are rejected with \<open>retryAfter\<close> 5, 3
  and 1.
\<close>

theorem C10_window_end_fixed_witness:
  "run_limiter ex_limiter ex_store_long ex_request [10, 2500, 4999] ex_key
     = Some \<lparr>count = 6, resetTime = 5000\<rparr>
   \<and> rejected (snd (createRateLimiter ex_limiter ex_store_long ex_request 10))
       = Some (too_many ex_limiter 5)
   \<and> rejected (snd (createRateLimiter ex_limiter
        (run_limiter ex_limiter ex_store_long ex_request [10]) ex_request 2500))
       = Some (too_many ex_limiter 3)
   \<and> rejected (snd (createRateLimiter ex_limiter
        (run_limiter ex_limiter ex_store_long ex_request [10, 2500]) ex_request 4999))
       = Some (too_many ex_limiter 1)"
proof -
  let ?e = "\<lparr>count = 3, resetTime = 5000\<rparr>"
  have s: "ex_store_long (key_of ex_limiter ex_request) = Some ?e"
    by (simp add: ex_key_of ex_store_long_def)
  have t3: "\<forall>t\<in>set [10, 2500, 4999 :: int]. t < resetTime ?e" by simp
  have t2: "\<forall>t\<in>set [10, 2500 :: int]. t < resetTime ?e" by simp
  have t1: "\<forall>t\<in>set [10 :: int]. t < resetTime ?e" by simp
  have t0: "\<forall>t\<in>set ([] :: int list). t < resetTime ?e" by simp
  note c3 = C10_window_end_fixed [of ex_store_long ex_limiter ex_request ?e "[10, 2500, 4999]"]
  note c2 = C10_window_end_fixed [of ex_store_long ex_limiter ex_request ?e "[10, 2500]"]
  note c1 = C10_window_end_fixed [of ex_store_long ex_limiter ex_request ?e "[10]"]
  note c0 = C10_window_end_fixed [of ex_store_long ex_limiter ex_request ?e "[]"]
  from c3 [OF s t3, THEN conjunct1]
  have a: "run_limiter ex_limiter ex_store_long ex_request [10, 2500, 4999] ex_key
     = Some \<lparr>count = 6, resetTime = 5000\<rparr>"
    by (simp del: run_limiter.simps add: ex_key_of)
  from c0 [OF s t0, THEN conjunct2, THEN conjunct1, rule_format, of 10]
  obtain r0 where "snd (createRateLimiter ex_limiter (run_limiter ex_limiter ex_store_long
        ex_request []) ex_request 10) =
       \<lparr>headers = [(''X-RateLimit-Limit'', maxRequests ex_limiter),
                    (''X-RateLimit-Remaining'', 0),
                    (''X-RateLimit-Reset'', resetTime ?e),
                    (''Retry-After'', r0)],
        rejected = Some (too_many ex_limiter r0)\<rparr>"
    and "resetTime ?e - 10 \<le> 1000 * r0" and "1000 * r0 < resetTime ?e - 10 + 1000"
    by (auto simp del: run_limiter.simps simp add: ex_limiter_bounds)
  moreover from this have "r0 = 5" by (simp; arith)
  ultimately have b: "rejected (snd (createRateLimiter ex_limiter ex_store_long ex_request 10))
       = Some (too_many ex_limiter 5)"
    by simp
  from c1 [OF s t1, THEN conjunct2, THEN conjunct1, rule_format, of 2500]
  obtain r1 where "snd (createRateLimiter ex_limiter (run_limiter ex_limiter ex_store_long
        ex_request [10]) ex_request 2500) =
       \<lparr>headers = [(''X-RateLimit-Limit'', maxRequests ex_limiter),
                    (''X-RateLimit-Remaining'', 0),
                    (''X-RateLimit-Reset'', resetTime ?e),
                    (''Retry-After'', r1)],
        rejected = Some (too_many ex_limiter r1)\<rparr>"
    and "resetTime ?e - 2500 \<le> 1000 * r1" and "1000 * r1 < resetTime ?e - 2500 + 1000"
    by (auto simp del: run_limiter.simps simp add: ex_limiter_bounds)
  moreover from this have "r1 = 3" by (simp; arith)
  ultimately have c: "rejected (snd (createRateLimiter ex_limiter
        (run_limiter ex_limiter ex_store_long ex_request [10]) ex_request 2500))
       = Some (too_many ex_limiter 3)"
    by (simp del: run_limiter.simps)
  from c2 [OF s t2, THEN conjunct2, THEN conjunct1, rule_format, of 4999]
  obtain r2 where "snd (createRateLimiter ex_limiter (run_limiter ex_limiter ex_store_long
        ex_request [10, 2500]) ex_request 4999) =
       \<lparr>headers = [(''X-RateLimit-Limit'', maxRequests ex_limiter),
                    (''X-RateLimit-Remaining'', 0),
                    (''X-RateLimit-Reset'', resetTime ?e),
                    (''Retry-After'', r2)],
        rejected = Some (too_many ex_limiter r2)\<rparr>"
    and "resetTime ?e - 4999 \<le> 1000 * r2" and "1000 * r2 < resetTime ?e - 4999 + 1000"
    by (auto simp del: run_limiter.simps simp add: ex_limiter_bounds)
  moreover from this have "r2 = 1" by (simp; arith)
  ultimately have d: "rejected (snd (createRateLimiter ex_limiter
        (run_limiter ex_limiter ex_store_long ex_request [10, 2500]) ex_request 4999))
       = Some (too_many ex_limiter 1)"
    by (simp del: run_limiter.simps)
  from a b c d show ?thesis by (simp del: run_limiter.simps)
qed

section \<open>Responses of the auth handlers\<close>

lemma forgot_ok_response:
  "fault e = None \<Longrightarrow> res (forgotPassword l e db [] email) = forgot_ok"
  by (simp add: forgotPassword_def Let_def split: option.splits)

lemma forgot_failed_iff:
  "res (forgotPassword l e db [] email) = forgot_failed \<longleftrightarrow>
     fault e = Some 0
     \<or> (\<exists>user. find (\<lambda>u. u_email u = toLowerCase l email) (users db) = Some user
           \<and> \<not> (truthy (u_googleId user) \<and> \<not> truthy (u_passwordHash user))
           \<and> (fault e = Some 1 \<or> fault e = Some 2))"
  by (auto simp add: forgotPassword_def Let_def caught_def forgot_ok_def forgot_failed_def
      res_json_def status_json_def split: option.splits)

lemma forgot_response_cases:
  "res (forgotPassword l e db [] email) = forgot_ok
   \<or> res (forgotPassword l e db [] email) = forgot_failed"
  by (simp add: forgotPassword_def Let_def caught_def split: option.splits)

text \<open>
  C4 (not met by the code).  Every valid forgot-password request is to be answered with
  the one success message, whether the address belongs to a user with a password, to no
  user or to a Google-only user; the handler says so itself (\<open>Always return success
  message to prevent email enumeration\<close>).  It does so as long as no awaited call
  rejects (\<open>forgot_ok_response\<close>).  But \<open>PasswordReset.updateMany\<close> and
  \<open>PasswordReset.create\<close> are awaited only for a registered user with a password, and
  their rejection goes to the \<open>catch\<close> block.  With a database that answers reads and
  rejects writes, the request for Alice's address is answered 500 while the requests
  for an unknown address and for Gina's (Google only) are answered 200 with the success
  message: the status tells the first case from the other two.
\<close>

theorem C4_write_failure_reveals_account:
  "res (forgotPassword ex_lib ex_env_write_fails ex_db [] ''a@mictech.edu.in'')
     = \<lparr>status = 500,
        body = JObj [(''error'', JStr ''Failed to process request. Please try again.'')]\<rparr>
   \<and> res (forgotPassword ex_lib ex_env_write_fails ex_db [] ''nobody@mictech.edu.in'')
     = \<lparr>status = 200, body = JObj [(''message'', JStr successMessage)]\<rparr>
   \<and> res (forgotPassword ex_lib ex_env_write_fails ex_db [] ''g@mictech.edu.in'')
     = \<lparr>status = 200, body = JObj [(''message'', JStr successMessage)]\<rparr>"
proof -
  have f: "fault ex_env_write_fails = Some 1" by (simp add: ex_env_write_fails_def)
  have nobody: "find (\<lambda>u. u_email u = toLowerCase ex_lib ''nobody@mictech.edu.in'') (users ex_db)
      = None"
    by (simp add: ex_lower ex_db_def ex_alice_def ex_gina_def)
  have gina: "find (\<lambda>u. u_email u = toLowerCase ex_lib ''g@mictech.edu.in'') (users ex_db)
      = Some ex_gina"
    by (simp add: ex_lower ex_db_def ex_alice_def ex_gina_def)
  have "res (forgotPassword ex_lib ex_env_write_fails ex_db [] ''a@mictech.edu.in'')
      = forgot_failed"
    using ex_find_alice(2) ex_alice_capable f
    by (auto simp add: forgotPassword_def Let_def caught_def)
  moreover have "res (forgotPassword ex_lib ex_env_write_fails ex_db [] ''nobody@mictech.edu.in'')
      = forgot_ok"
    using nobody f by (simp add: forgotPassword_def)
  moreover have "res (forgotPassword ex_lib ex_env_write_fails ex_db [] ''g@mictech.edu.in'')
      = forgot_ok"
    using gina f by (simp add: forgotPassword_def ex_gina_def)
  ultimately show ?thesis
    by (simp add: forgot_ok_def forgot_failed_def res_json_def status_json_def json_error_def)
qed

text \<open>
  C5.  A login whose address matches no user and a login whose address matches a user
  but whose password does not compare equal are answered identically: status 401 and
  the body \<open>{error: 'Invalid credentials'}\<close>.
\<close>

theorem C5_login_failure_uniform:
  assumes "find (\<lambda>u. u_email u = email1) (users db1) = None"
    and "find (\<lambda>u. u_email u = email2) (users db2) = Some user"
    and "\<not> comparePassword l user password2"
    and "fault e1 = None" and "fault e2 = None"
  shows "res (login l e1 db1 [] email1 password1) = res (login l e2 db2 [] email2 password2)
         \<and> res (login l e2 db2 [] email2 password2)
             = \<lparr>status = 401, body = JObj [(''error'', JStr ''Invalid credentials'')]\<rparr>"
  using assms by (simp add: login_def Let_def status_json_def json_error_def)

text \<open>An unknown address, and Alice with a wrong password.\<close>

theorem C5_login_failure_uniform_witness:
  "res (login ex_lib ex_env ex_db [] ''nobody@mictech.edu.in'' (js ''password1''))
     = res (login ex_lib ex_env ex_db [] ''a@mictech.edu.in'' (js ''wrong-password''))
   \<and> status (res (login ex_lib ex_env ex_db [] ''a@mictech.edu.in'' (js ''wrong-password''))) = 401"
proof -
  have a: "find (\<lambda>u. u_email u = ''nobody@mictech.edu.in'') (users ex_db) = None"
    by (simp add: ex_db_def ex_alice_def ex_gina_def)
  have b: "find (\<lambda>u. u_email u = ''a@mictech.edu.in'') (users ex_db) = Some ex_alice"
    by (simp add: ex_db_def ex_alice_def ex_gina_def)
  have c: "\<not> comparePassword ex_lib ex_alice (js ''wrong-password'')"
    by (simp add: ex_lib_def ex_alice_def narrow_js)
  from C5_login_failure_uniform [of "''nobody@mictech.edu.in''" ex_db "''a@mictech.edu.in''" ex_db
      ex_alice ex_lib "js ''wrong-password''" ex_env ex_env "js ''password1''"] a b c
  show ?thesis by (simp add: ex_env_fault)
qed

lemma refresh_status:
  "status (res (refreshAccessToken l e db rt)) \<in> {200, 400, 401, 404}"
  by (simp add: refreshAccessToken_def Let_def caught_def status_json_def res_json_def
      refresh_invalid_def split: option.splits)

lemma refresh_400:
  "(status (res (refreshAccessToken l e db rt)) = 400) = (\<not> truthy rt)"
  by (cases rt) (simp_all add: refreshAccessToken_def Let_def caught_def status_json_def res_json_def
      refresh_invalid_def split: option.splits)

lemma refresh_404_body:
  "status (res (refreshAccessToken l e db rt)) = 404 \<Longrightarrow>
   res (refreshAccessToken l e db rt) = status_json 404 (json_error ''User not found'')"
  by (cases rt) (auto simp add: refreshAccessToken_def Let_def caught_def status_json_def res_json_def
      refresh_invalid_def split: option.splits if_splits)

lemma refresh_404_cause:
  "status (res (refreshAccessToken l e db rt)) = 404 \<Longrightarrow>
   \<exists>token userId. rt = Some token \<and> verifyRefreshToken l token = Some userId
      \<and> find (\<lambda>u. u_id u = userId) (users db) = None"
  by (cases rt) (simp_all add: refreshAccessToken_def Let_def caught_def status_json_def res_json_def
      refresh_invalid_def split: option.splits if_splits)

lemma refresh_200:
  "status (res (refreshAccessToken l e db rt)) = 200 \<Longrightarrow>
   \<exists>user. user \<in> set (users db)
     \<and> body (res (refreshAccessToken l e db rt)) = JObj [(''accessToken'', JStr (generateAccessToken l user))]"
  by (cases rt) (auto simp add: refreshAccessToken_def Let_def caught_def status_json_def res_json_def
      refresh_invalid_def split: option.splits if_splits dest: find_SomeD)

text \<open>
  C9 (amended).  The refresh operation answers with status 200, 400, 401 or 404 and no
  other: 400 exactly when the refresh token is missing or empty; 404 only with the body
  \<open>{error: 'User not found'}\<close>, when the verified token names a user that does not exist;
  and a 200 body holds the new access token of an existing user and nothing else.
\<close>

theorem C9_refresh_statuses:
  "status (res (refreshAccessToken l e db rt)) \<in> {200, 400, 401, 404}
   \<and> ((status (res (refreshAccessToken l e db rt)) = 400) = (\<not> truthy rt))
   \<and> (status (res (refreshAccessToken l e db rt)) = 404 \<longrightarrow>
        (\<exists>token userId. rt = Some token \<and> verifyRefreshToken l token = Some userId
           \<and> find (\<lambda>u. u_id u = userId) (users db) = None
           \<and> res (refreshAccessToken l e db rt) = status_json 404 (json_error ''User not found'')))
   \<and> (status (res (refreshAccessToken l e db rt)) = 200 \<longrightarrow>
        (\<exists>user. user \<in> set (users db)
           \<and> body (res (refreshAccessToken l e db rt))
               = JObj [(''accessToken'', JStr (generateAccessToken l user))]))"
  using refresh_status [of l e db rt] refresh_400 [of l e db rt]
    refresh_404_body [of l e db rt] refresh_404_cause [of l e db rt] refresh_200 [of l e db rt]
  by blast

lemma ex_refresh_ok:
  "res (refreshAccessToken ex_lib ex_env ex_db (Some ''jwt-7''))
     = \<lparr>status = 200, body = JObj [(''accessToken'', JStr ''access-Alice'')]\<rparr>"
  by (simp add: refreshAccessToken_def ex_lib_def ex_env_def ex_db_def ex_session_def
      ex_alice_def ex_gina_def res_json_def status_json_def)

text \<open>Alice's stored session is refreshed.\<close>

theorem C9_refresh_statuses_witness:
  "status (res (refreshAccessToken ex_lib ex_env ex_db (Some ''jwt-7''))) = 200
   \<and> (\<exists>user. user \<in> set (users ex_db)
         \<and> body (res (refreshAccessToken ex_lib ex_env ex_db (Some ''jwt-7'')))
             = JObj [(''accessToken'', JStr (generateAccessToken ex_lib user))])"
  using C9_refresh_statuses [of ex_lib ex_env ex_db "Some ''jwt-7''"]
  by (simp add: ex_refresh_ok)

text \<open>
  C9 as stated fails where a stored, unexpired session belongs to a user that is gone:
  the answer is 404, neither 400 nor 401.
\<close>

theorem C9_refresh_404_counterexample:
  "res (refreshAccessToken ex_lib ex_env ex_db_orphan (Some ''jwt-7''))
     = \<lparr>status = 404, body = JObj [(''error'', JStr ''User not found'')]\<rparr>"
  by (simp add: refreshAccessToken_def ex_lib_def ex_env_def ex_db_orphan_def ex_session_def
      status_json_def json_error_def)

section \<open>The format check on reset tokens\<close>

lemma verify_malformed:
  "length token \<noteq> 64 \<Longrightarrow>
   verifyResetToken l e db token =
     \<lparr>res = status_json 400
        (JObj [(''valid'', JBool False), (''error'', JStr ''Invalid token format'')]),
      db_after = db, effects = []\<rparr>"
  by (simp add: verifyResetToken_def)

lemma verify_wellformed_effects:
  "length token = 64 \<Longrightarrow>
   take 2 (effects (verifyResetToken l e db token)) = [Hash token, Await ''PasswordReset.findOne'']"
  by (auto simp add: verifyResetToken_def Let_def caught_def split: option.splits)

lemma validate_malformed:
  "validator_length l (or_default (rb_token b) []) \<noteq> 64 \<Longrightarrow>
   \<lparr>v_path = ''token'', v_msg = ''Invalid reset token format''\<rparr> \<in> set (validateResetPassword l b)"
  by (simp add: validateResetPassword_def check_def)

lemma validate_token_passes:
  "truthy (rb_token b) \<Longrightarrow> validator_length l (or_default (rb_token b) []) = 64 \<Longrightarrow>
   \<forall>err\<in>set (validateResetPassword l b). v_path err \<noteq> ''token''"
  by (simp add: validateResetPassword_def check_def)

lemma validate_ok_token:
  "validateResetPassword l b = [] \<Longrightarrow>
   \<exists>token. rb_token b = Some token \<and> validator_length l token = 64"
  by (cases "rb_token b") (auto simp add: validateResetPassword_def check_def split: if_splits)

lemma route_invalid:
  "validateResetPassword l b \<noteq> [] \<Longrightarrow>
   reset_password_route l e db b =
     \<lparr>res = status_json 400 (errors_json (validateResetPassword l b)),
      db_after = db, effects = []\<rparr>"
  by (simp add: reset_password_route_def resetPassword_def)

lemma reset_effects_prefix:
  "rb_token b = Some token \<Longrightarrow>
   take 2 (effects (resetPassword l e db [] b)) = [Hash token, Await ''PasswordReset.findOne'']"
  by (simp add: resetPassword_def Let_def caught_def split: option.splits)

text \<open>
  C8 (amended).  Neither path looks at the characters of the token; each measures a
  length, and not the same one.

  On the verify-reset-token path a token whose \<open>.length\<close> (UTF-16 code units) is not 64 is
  answered 400 \<open>Invalid token format\<close> with no effect at all: nothing is hashed and no
  persistence call is made.  A token of \<open>.length\<close> 64 is hashed and looked up, whatever
  its characters are.

  On the reset-password path a body whose token is absent, or has a length other than
  64 as the validator measures it, fails validation with \<open>Invalid reset token format\<close>.
  Whenever validation fails, for the token or for another field, the handler answers
  400 with the validation errors and with no effect.  A token that is present and has
  validator length 64 raises no error for the field \<open>token\<close>, and when the whole body
  passes validation the token is hashed and looked up.
\<close>

theorem C8_malformed_token_rejected_early:
  "(length token \<noteq> 64 \<longrightarrow>
      verifyResetToken l e db token =
        \<lparr>res = status_json 400
           (JObj [(''valid'', JBool False), (''error'', JStr ''Invalid token format'')]),
         db_after = db, effects = []\<rparr>)
   \<and> (length token = 64 \<longrightarrow>
      take 2 (effects (verifyResetToken l e db token))
        = [Hash token, Await ''PasswordReset.findOne''])
   \<and> (validator_length l (or_default (rb_token b) []) \<noteq> 64 \<longrightarrow>
      \<lparr>v_path = ''token'', v_msg = ''Invalid reset token format''\<rparr>
        \<in> set (validateResetPassword l b))
   \<and> (validateResetPassword l b \<noteq> [] \<longrightarrow>
      reset_password_route l e db b =
        \<lparr>res = status_json 400 (errors_json (validateResetPassword l b)),
         db_after = db, effects = []\<rparr>)
   \<and> (truthy (rb_token b) \<and> validator_length l (or_default (rb_token b) []) = 64 \<longrightarrow>
      (\<forall>err\<in>set (validateResetPassword l b). v_path err \<noteq> ''token''))
   \<and> (validateResetPassword l b = [] \<longrightarrow>
      (\<exists>t. rb_token b = Some t \<and> validator_length l t = 64
         \<and> take 2 (effects (reset_password_route l e db b))
             = [Hash t, Await ''PasswordReset.findOne'']))"
proof (intro conjI impI)
  assume "length token \<noteq> 64"
  then show "verifyResetToken l e db token =
        \<lparr>res = status_json 400
           (JObj [(''valid'', JBool False), (''error'', JStr ''Invalid token format'')]),
         db_after = db, effects = []\<rparr>"
    by (rule verify_malformed)
next
  assume "length token = 64"
  then show "take 2 (effects (verifyResetToken l e db token))
        = [Hash token, Await ''PasswordReset.findOne'']"
    by (rule verify_wellformed_effects)
next
  assume "validator_length l (or_default (rb_token b) []) \<noteq> 64"
  then show "\<lparr>v_path = ''token'', v_msg = ''Invalid reset token format''\<rparr>
        \<in> set (validateResetPassword l b)"
    by (rule validate_malformed)
next
  assume "validateResetPassword l b \<noteq> []"
  then show "reset_password_route l e db b =
        \<lparr>res = status_json 400 (errors_json (validateResetPassword l b)),
         db_after = db, effects = []\<rparr>"
    by (rule route_invalid)
next
  assume "truthy (rb_token b) \<and> validator_length l (or_default (rb_token b) []) = 64"
  then show "\<forall>err\<in>set (validateResetPassword l b). v_path err \<noteq> ''token''"
    using validate_token_passes [of b l] by simp
next
  assume ok: "validateResetPassword l b = []"
  from validate_ok_token [OF ok] obtain t
    where t: "rb_token b = Some t" and len: "validator_length l t = 64" by blast
  from reset_effects_prefix [OF t, of l e db] ok
  have "take 2 (effects (reset_password_route l e db b))
          = [Hash t, Await ''PasswordReset.findOne'']"
    by (simp add: reset_password_route_def)
  with t len show "\<exists>t. rb_token b = Some t \<and> validator_length l t = 64
         \<and> take 2 (effects (reset_password_route l e db b))
             = [Hash t, Await ''PasswordReset.findOne'']"
    by blast
qed

text \<open>The sample validator length on the sample tokens.\<close>

lemma pairs_once_Cons:
  "\<not> is_high_surrogate u \<Longrightarrow> pairs_once (u # us) = Suc (pairs_once us)"
  by (cases us) simp_all

lemma pairs_once_replicate:
  "\<not> is_high_surrogate u \<Longrightarrow> pairs_once (replicate n u @ us) = n + pairs_once us"
  by (induction n) (simp_all add: pairs_once_Cons)

lemma pairs_once_js: "pairs_once (js s) = length s"
proof (induction s)
  case Nil
  then show ?case by (simp add: js_def)
next
  case (Cons c s)
  have "(of_char c :: nat) < 256" by (rule of_char_bound)
  then have "\<not> 55296 \<le> (of_char c :: nat)" by linarith
  then have "\<not> is_high_surrogate (of_nat (of_char c))"
    by (simp add: is_high_surrogate_def unat_unit)
  with Cons show ?case by (simp add: js_def pairs_once_Cons)
qed

lemma ex_surrogates:
  "\<not> is_high_surrogate 0x61" "\<not> is_high_surrogate 0x7A"
  "is_high_surrogate 0xD83D" "is_low_surrogate 0xDE00"
  by (simp_all add: is_high_surrogate_def is_low_surrogate_def)

lemma ex_lengths:
  "length ex_token_62 = 64" "validator_length ex_lib ex_token_62 = 63"
  "length ex_token_63 = 65" "validator_length ex_lib ex_token_63 = 64"
  "length ex_z_token = 64" "validator_length ex_lib ex_z_token = 64"
  "length ex_abc_token = 3"
  using pairs_once_replicate [of "0x61" 62 "[0xD83D, 0xDE00]"]
    pairs_once_replicate [of "0x61" 63 "[0xD83D, 0xDE00]"]
    pairs_once_replicate [of "0x7A" 64 "[]"]
  by (simp_all add: ex_token_62_def ex_token_63_def ex_z_token_def ex_abc_token_def js_def
      ex_lib_def ex_surrogates)

lemma ex_body_valid:
  "validator_length ex_lib token = 64 \<Longrightarrow> token \<noteq> [] \<Longrightarrow>
   validateResetPassword ex_lib (ex_body token) = []"
  using pairs_once_js [of "''password2''"]
  by (simp add: validateResetPassword_def check_def ex_body_def ex_lib_def js_def)

text \<open>
  Three characters on the verify path.  The token of 62 letters and U+1F600 is hashed
  and looked up on the verify path and fails validation on the reset path; the token of
  63 letters and U+1F600 gets the format error on the verify path and is hashed and
  looked up on the reset path.  A body with a token of the right length and a password
  that is too short is answered with no effect.
\<close>

theorem C8_malformed_token_rejected_early_witness:
  "verifyResetToken ex_lib ex_env ex_db ex_abc_token =
     \<lparr>res = status_json 400
        (JObj [(''valid'', JBool False), (''error'', JStr ''Invalid token format'')]),
      db_after = ex_db, effects = []\<rparr>
   \<and> take 2 (effects (verifyResetToken ex_lib ex_env ex_db ex_token_62))
        = [Hash ex_token_62, Await ''PasswordReset.findOne'']
   \<and> \<lparr>v_path = ''token'', v_msg = ''Invalid reset token format''\<rparr>
        \<in> set (validateResetPassword ex_lib (ex_body ex_token_62))
   \<and> effects (reset_password_route ex_lib ex_env ex_db (ex_body ex_token_62)) = []
   \<and> verifyResetToken ex_lib ex_env ex_db ex_token_63 =
     \<lparr>res = status_json 400
        (JObj [(''valid'', JBool False), (''error'', JStr ''Invalid token format'')]),
      db_after = ex_db, effects = []\<rparr>
   \<and> take 2 (effects (reset_password_route ex_lib ex_env ex_db (ex_body ex_token_63)))
        = [Hash ex_token_63, Await ''PasswordReset.findOne'']
   \<and> effects (reset_password_route ex_lib ex_env ex_db ex_weak_body) = []"
proof -
  note c62 = C8_malformed_token_rejected_early
    [of ex_token_62 ex_lib ex_env ex_db "ex_body ex_token_62"]
  note c63 = C8_malformed_token_rejected_early
    [of ex_token_63 ex_lib ex_env ex_db "ex_body ex_token_63"]
  note cabc = C8_malformed_token_rejected_early
    [of ex_abc_token ex_lib ex_env ex_db ex_weak_body]
  have t62: "rb_token (ex_body ex_token_62) = Some ex_token_62"
    and t63: "rb_token (ex_body ex_token_63) = Some ex_token_63"
    by (simp_all add: ex_body_def)
  have ne: "ex_token_62 \<noteq> []" "ex_token_63 \<noteq> []"
    by (simp_all add: ex_token_62_def ex_token_63_def)
  from cabc ex_lengths(7)
  have a: "verifyResetToken ex_lib ex_env ex_db ex_abc_token =
     \<lparr>res = status_json 400
        (JObj [(''valid'', JBool False), (''error'', JStr ''Invalid token format'')]),
      db_after = ex_db, effects = []\<rparr>"
    by simp
  from c62 ex_lengths(1)
  have b: "take 2 (effects (verifyResetToken ex_lib ex_env ex_db ex_token_62))
        = [Hash ex_token_62, Await ''PasswordReset.findOne'']"
    by simp
  have "validator_length ex_lib (or_default (rb_token (ex_body ex_token_62)) []) \<noteq> 64"
    using ex_lengths(2) ne(1) by (simp add: t62)
  with c62
  have c: "\<lparr>v_path = ''token'', v_msg = ''Invalid reset token format''\<rparr>
        \<in> set (validateResetPassword ex_lib (ex_body ex_token_62))"
    by blast
  then have "validateResetPassword ex_lib (ex_body ex_token_62) \<noteq> []" by auto
  with c62 have "reset_password_route ex_lib ex_env ex_db (ex_body ex_token_62) =
        \<lparr>res = status_json 400 (errors_json (validateResetPassword ex_lib (ex_body ex_token_62))),
         db_after = ex_db, effects = []\<rparr>"
    by blast
  then have d: "effects (reset_password_route ex_lib ex_env ex_db (ex_body ex_token_62)) = []"
    by simp
  from c63 ex_lengths(3)
  have e: "verifyResetToken ex_lib ex_env ex_db ex_token_63 =
     \<lparr>res = status_json 400
        (JObj [(''valid'', JBool False), (''error'', JStr ''Invalid token format'')]),
      db_after = ex_db, effects = []\<rparr>"
    by simp
  from c63 ex_body_valid [OF ex_lengths(4) ne(2)] t63
  have f: "take 2 (effects (reset_password_route ex_lib ex_env ex_db (ex_body ex_token_63)))
        = [Hash ex_token_63, Await ''PasswordReset.findOne'']"
    by auto
  have "validateResetPassword ex_lib ex_weak_body \<noteq> []"
    using pairs_once_js [of "''pw''"]
    by (simp add: validateResetPassword_def check_def ex_weak_body_def ex_lib_def js_def)
  with cabc have "reset_password_route ex_lib ex_env ex_db ex_weak_body =
        \<lparr>res = status_json 400 (errors_json (validateResetPassword ex_lib ex_weak_body)),
         db_after = ex_db, effects = []\<rparr>"
    by blast
  then have g: "effects (reset_password_route ex_lib ex_env ex_db ex_weak_body) = []"
    by simp
  from a b c d e f g show ?thesis by simp
qed

text \<open>
  C8 as stated fails for a token that has 64 characters but is not hexadecimal: it is
  not rejected for its format; it is hashed and looked up on both paths, and answered
  with the invalid-or-expired error.
\<close>

theorem C8_non_hex_token_counterexample:
  "length ex_z_token = 64
   \<and> \<not> list_all is_hex_unit ex_z_token
   \<and> verifyResetToken ex_lib ex_env ex_db ex_z_token =
       \<lparr>res = status_json 400
          (JObj [(''valid'', JBool False), (''error'', JStr ''Invalid or expired reset token'')]),
        db_after = ex_db,
        effects = [Hash ex_z_token, Await ''PasswordReset.findOne'']\<rparr>
   \<and> reset_password_route ex_lib ex_env ex_db (ex_body ex_z_token) =
       \<lparr>res = reset_invalid, db_after = ex_db,
        effects = [Hash ex_z_token, Await ''PasswordReset.findOne'']\<rparr>"
proof (intro conjI)
  show len: "length ex_z_token = 64" by (rule ex_lengths(5))
  have "\<not> is_hex_unit 0x7A" by (simp add: is_hex_unit_def js_def)
  then show "\<not> list_all is_hex_unit ex_z_token"
    by (simp add: ex_z_token_def list_all_iff)
  have ne: "ex_z_token \<noteq> []" by (simp add: ex_z_token_def)
  have nores: "passwordResets ex_db = []" by (simp add: ex_db_def)
  show "verifyResetToken ex_lib ex_env ex_db ex_z_token =
       \<lparr>res = status_json 400
          (JObj [(''valid'', JBool False), (''error'', JStr ''Invalid or expired reset token'')]),
        db_after = ex_db,
        effects = [Hash ex_z_token, Await ''PasswordReset.findOne'']\<rparr>"
    using len ne by (simp add: verifyResetToken_def Let_def ex_env_fault nores)
  have "validateResetPassword ex_lib (ex_body ex_z_token) = []"
    using ex_lengths(6) ne by (rule ex_body_valid)
  moreover have "rb_token (ex_body ex_z_token) = Some ex_z_token" by (simp add: ex_body_def)
  ultimately show "reset_password_route ex_lib ex_env ex_db (ex_body ex_z_token) =
       \<lparr>res = reset_invalid, db_after = ex_db,
        effects = [Hash ex_z_token, Await ''PasswordReset.findOne'']\<rparr>"
    by (simp add: reset_password_route_def resetPassword_def Let_def ex_env_fault nores)
qed

section \<open>Consuming a reset token\<close>

lemma reset_success_D:
  "status (res (resetPassword l e db errors b)) = 200 \<Longrightarrow>
   errors = [] \<and> fault e \<noteq> Some 0 \<and> fault e \<noteq> Some 1 \<and> fault e \<noteq> Some 2
   \<and> fault e \<noteq> Some 3 \<and> fault e \<noteq> Some 4
   \<and> (\<exists>token r user. rb_token b = Some token
        \<and> find (valid_reset (sha256 l token) (Date_now e)) (passwordResets db) = Some r
        \<and> find (\<lambda>u. u_id u = pr_userId r) (users db) = Some user)"
  by (simp add: resetPassword_def Let_def caught_def reset_failed_def reset_invalid_def
      status_json_def split: if_splits option.splits)

lemma reset_eval:
  "rb_token b = Some token \<Longrightarrow>
   find (valid_reset (sha256 l token) (Date_now e)) (passwordResets db) = Some r \<Longrightarrow>
   find (\<lambda>u. u_id u = pr_userId r) (users db) = Some user \<Longrightarrow>
   fault e \<noteq> Some 0 \<Longrightarrow> fault e \<noteq> Some 1 \<Longrightarrow> fault e \<noteq> Some 2 \<Longrightarrow>
   fault e \<noteq> Some 3 \<Longrightarrow> fault e \<noteq> Some 4 \<Longrightarrow>
   resetPassword l e db [] b =
     \<lparr>res = reset_ok,
      db_after = \<lparr>users = save_user
                     (user\<lparr>u_passwordHash := map_option (hashPassword l) (rb_password b)\<rparr>)
                     (users db),
                  refreshTokens = deleteMany (\<lambda>d. rt_userId d = pr_userId r) (refreshTokens db),
                  passwordResets = save_reset (r\<lparr>pr_used := True\<rparr>) (passwordResets db)\<rparr>,
      effects = [Hash token, Await ''PasswordReset.findOne'', Await ''User.findById'',
                 Await ''user.save'', Await ''resetRecord.save'',
                 Await ''RefreshToken.deleteMany'']\<rparr>"
  by (auto simp add: resetPassword_def Let_def dest: find_SomeD)


lemma reset_target_success:
  "rb_token b = Some token \<Longrightarrow>
   find (valid_reset (sha256 l token) (Date_now e)) (passwordResets db) = Some r \<Longrightarrow>
   reset_target l e db b = Some (pr_userId r)"
  by (simp add: reset_target_def verifyToken_def)

lemma refresh_without_rows:
  assumes "\<forall>d\<in>set (refreshTokens db). rt_userId d \<noteq> uid"
    and "t \<noteq> []" and "verifyRefreshToken l t = Some uid"
  shows "res (refreshAccessToken l e db (Some t)) = refresh_invalid"
proof -
  from assms(1) have "find (\<lambda>d. rt_token d = t \<and> rt_userId d = uid) (refreshTokens db) = None"
    by (simp add: find_None_iff)
  with assms(2,3) show ?thesis
    by (simp add: refreshAccessToken_def caught_def refresh_invalid_def)
qed

text \<open>
  C3.  A reset-password call answered 200 was made for some user, the owner of the reset
  record that its token verified against.  Afterwards the database holds no refresh
  token of that user, and the refresh operation answers 401 \<open>Invalid refresh token\<close> to
  every refresh token whose verified payload names that user, whenever it is presented.
\<close>

theorem C3_reset_revokes_sessions:
  assumes "status (res (resetPassword l e db errors b)) = 200"
  shows "\<exists>uid. reset_target l e db b = Some uid
    \<and> (\<forall>d\<in>set (refreshTokens (db_after (resetPassword l e db errors b))). rt_userId d \<noteq> uid)
    \<and> (\<forall>e' t. t \<noteq> [] \<and> verifyRefreshToken l t = Some uid \<longrightarrow>
          res (refreshAccessToken l e' (db_after (resetPassword l e db errors b)) (Some t))
            = \<lparr>status = 401, body = JObj [(''error'', JStr ''Invalid refresh token'')]\<rparr>)"
proof -
  from reset_success_D [OF assms] obtain token r user where
    errs: "errors = []" and
    f: "fault e \<noteq> Some 0" "fault e \<noteq> Some 1" "fault e \<noteq> Some 2" "fault e \<noteq> Some 3"
       "fault e \<noteq> Some 4" and
    tok: "rb_token b = Some token" and
    rec: "find (valid_reset (sha256 l token) (Date_now e)) (passwordResets db) = Some r" and
    usr: "find (\<lambda>u. u_id u = pr_userId r) (users db) = Some user"
    by blast
  let ?db' = "db_after (resetPassword l e db errors b)"
  have rows: "refreshTokens ?db' = deleteMany (\<lambda>d. rt_userId d = pr_userId r) (refreshTokens db)"
    using reset_eval [OF tok rec usr f] errs by simp
  then have none: "\<forall>d\<in>set (refreshTokens ?db'). rt_userId d \<noteq> pr_userId r"
    by (simp add: deleteMany_def)
  have "\<forall>e' t. t \<noteq> [] \<and> verifyRefreshToken l t = Some (pr_userId r) \<longrightarrow>
          res (refreshAccessToken l e' ?db' (Some t))
            = \<lparr>status = 401, body = JObj [(''error'', JStr ''Invalid refresh token'')]\<rparr>"
    using refresh_without_rows [OF none]
    by (simp add: refresh_invalid_def status_json_def json_error_def)
  with none reset_target_success [OF tok rec] show ?thesis by blast
qed

text \<open>
  Alice holds a session and a pending reset record.  Her refresh token works before the
  reset and is answered 401 after it.
\<close>

lemma ex_reset_succeeds:
  "res (resetPassword ex_lib ex_env_later ex_db_pending [] ex_reset_body) = reset_ok"
  by (simp add: resetPassword_def Let_def ex_env_later_def ex_env_def ex_db_pending_def ex_db_def
      ex_reset_body_def ex_body_def ex_pending_def ex_sha valid_reset_def ex_alice_def
      ex_gina_def)

lemma ex_reset_target: "reset_target ex_lib ex_env_later ex_db_pending ex_reset_body = Some 7"
  by (simp add: reset_target_def verifyToken_def ex_env_later_def ex_env_def ex_db_pending_def
      ex_db_def ex_reset_body_def ex_body_def ex_pending_def ex_sha valid_reset_def)

lemma ex_refresh_before:
  "status (res (refreshAccessToken ex_lib ex_env_later ex_db_pending (Some ''jwt-7''))) = 200"
  by (simp add: refreshAccessToken_def ex_lib_def ex_env_later_def ex_env_def ex_db_pending_def
      ex_db_def ex_session_def ex_alice_def ex_gina_def res_json_def status_json_def)

theorem C3_reset_revokes_sessions_witness:
  "status (res (refreshAccessToken ex_lib ex_env_later ex_db_pending (Some ''jwt-7''))) = 200
   \<and> status (res (resetPassword ex_lib ex_env_later ex_db_pending [] ex_reset_body)) = 200
   \<and> status (res (refreshAccessToken ex_lib ex_env_later
        (db_after (resetPassword ex_lib ex_env_later ex_db_pending [] ex_reset_body))
        (Some ''jwt-7''))) = 401"
proof -
  have ok: "status (res (resetPassword ex_lib ex_env_later ex_db_pending [] ex_reset_body)) = 200"
    by (simp add: ex_reset_succeeds reset_ok_def res_json_def status_json_def)
  have v: "verifyRefreshToken ex_lib ''jwt-7'' = Some 7" by (simp add: ex_lib_def)
  from C3_reset_revokes_sessions [OF ok] ex_reset_target v
  have "res (refreshAccessToken ex_lib ex_env_later
          (db_after (resetPassword ex_lib ex_env_later ex_db_pending [] ex_reset_body))
          (Some ''jwt-7''))
        = \<lparr>status = 401, body = JObj [(''error'', JStr ''Invalid refresh token'')]\<rparr>"
    by auto
  with ok ex_refresh_before show ?thesis by simp
qed

lemma find_valid_reset_SomeD:
  "find (valid_reset h now) docs = Some r \<Longrightarrow>
   r \<in> set docs \<and> pr_tokenHash r = h \<and> \<not> pr_used r \<and> now < pr_expiresAt r"
  using find_SomeD [of "valid_reset h now" docs r] by (simp add: valid_reset_def)

lemma find_valid_reset_None:
  "\<forall>d\<in>set docs. pr_tokenHash d = h \<longrightarrow> pr_used d \<Longrightarrow> find (valid_reset h now) docs = None"
  by (auto simp add: find_None_iff valid_reset_def)

lemma save_reset_consumes:
  assumes "hashes_identify docs" and "r \<in> set docs"
  shows "\<forall>d\<in>set (save_reset (r\<lparr>pr_used := True\<rparr>) docs).
           pr_tokenHash d = pr_tokenHash r \<longrightarrow> pr_used d"
proof
  fix d assume "d \<in> set (save_reset (r\<lparr>pr_used := True\<rparr>) docs)"
  then have "d \<in> (\<lambda>d0. if pr_id d0 = pr_id r then r\<lparr>pr_used := True\<rparr> else d0) ` set docs"
    by (simp add: save_reset_def)
  then obtain d0 where d: "d = (if pr_id d0 = pr_id r then r\<lparr>pr_used := True\<rparr> else d0)"
    and d0: "d0 \<in> set docs"
    by (rule imageE)
  from assms d0 have same: "pr_tokenHash d0 = pr_tokenHash r \<longrightarrow> pr_id d0 = pr_id r"
    unfolding hashes_identify_def by blast
  show "pr_tokenHash d = pr_tokenHash r \<longrightarrow> pr_used d"
  proof (cases "pr_id d0 = pr_id r")
    case True
    with d show ?thesis by simp
  next
    case False
    with same d show ?thesis by simp
  qed
qed

lemma reset_without_valid_record:
  assumes "rb_token b = Some token"
    and "find (valid_reset (sha256 l token) (Date_now e)) (passwordResets db) = None"
  shows "db_after (resetPassword l e db errors b) = db
    \<and> status (res (resetPassword l e db errors b)) \<noteq> 200
    \<and> (errors = [] \<and> fault e \<noteq> Some 0 \<longrightarrow> res (resetPassword l e db errors b) = reset_invalid)"
proof -
  have eq: "resetPassword l e db errors b =
     (if errors \<noteq> [] then
        \<lparr>res = status_json 400 (errors_json errors), db_after = db, effects = []\<rparr>
      else if fault e = Some 0 then
        caught ''Reset password error:'' reset_failed db
          [Hash token, Await ''PasswordReset.findOne'']
      else
        \<lparr>res = reset_invalid, db_after = db,
         effects = [Hash token, Await ''PasswordReset.findOne'']\<rparr>)"
    using assms by (simp add: resetPassword_def Let_def)
  show ?thesis unfolding eq
    by (simp add: caught_def reset_failed_def reset_invalid_def status_json_def)
qed

lemma used_preserved_map:
  "(\<And>d. pr_used d \<Longrightarrow> pr_used (f d)) \<Longrightarrow> used_preserved docs (map f docs @ extra)"
  by (induction docs) (simp_all add: used_preserved_def)

lemma used_preserved_refl: "used_preserved docs docs"
  using used_preserved_map [of "\<lambda>d. d" docs "[]"] by simp

lemma used_preserved_invalidate:
  "used_preserved docs (invalidate_resets u docs @ extra)"
  unfolding invalidate_resets_def updateMany_def by (rule used_preserved_map) simp

lemma used_preserved_invalidate0:
  "used_preserved docs (invalidate_resets u docs)"
  using used_preserved_invalidate [of docs u "[]"] by simp

lemma used_preserved_save:
  "used_preserved docs (save_reset (r\<lparr>pr_used := True\<rparr>) docs)"
  using used_preserved_map [of "\<lambda>d. if pr_id d = pr_id r then r\<lparr>pr_used := True\<rparr> else d" docs "[]"]
  by (simp add: save_reset_def)

lemma forgot_used_preserved:
  "used_preserved (passwordResets db)
     (passwordResets (db_after (forgotPassword l e db errors email)))"
  by (simp add: forgotPassword_def Let_def caught_def used_preserved_refl
      used_preserved_invalidate used_preserved_invalidate0 split: option.splits)

lemma reset_used_preserved:
  "used_preserved (passwordResets db)
     (passwordResets (db_after (resetPassword l e db errors b)))"
  by (simp add: resetPassword_def Let_def caught_def used_preserved_refl
      used_preserved_save split: option.splits)

text \<open>
  C2.  Let a reset-password call with a given token be answered 200, in a collection
  whose token hashes identify its documents.  Then the token verified against a record
  that was unused and had its expiry strictly after the time of the call; afterwards
  every record with the digest of the token is used; any later reset-password call with
  the same token leaves the database as it is (so also the password), is never answered
  200, and, when it passes validation and its lookup does not fail, is answered 400 with
  the generic invalid-or-expired message.  No forgot-password or reset-password call, on
  any database, removes a reset record or turns a used one back to unused.
\<close>

theorem C2_reset_token_one_shot:
  assumes "status (res (resetPassword l e db errors b)) = 200"
    and "rb_token b = Some token"
    and "hashes_identify (passwordResets db)"
  shows "(\<exists>r\<in>set (passwordResets db).
            pr_tokenHash r = sha256 l token \<and> \<not> pr_used r \<and> Date_now e < pr_expiresAt r)
    \<and> (\<forall>d\<in>set (passwordResets (db_after (resetPassword l e db errors b))).
          pr_tokenHash d = sha256 l token \<longrightarrow> pr_used d)
    \<and> (\<forall>e2 errors2 b2. rb_token b2 = Some token \<longrightarrow>
          db_after (resetPassword l e2 (db_after (resetPassword l e db errors b)) errors2 b2)
            = db_after (resetPassword l e db errors b)
          \<and> status (res (resetPassword l e2 (db_after (resetPassword l e db errors b)) errors2 b2))
              \<noteq> 200
          \<and> (errors2 = [] \<and> fault e2 \<noteq> Some 0 \<longrightarrow>
               res (resetPassword l e2 (db_after (resetPassword l e db errors b)) errors2 b2)
                 = \<lparr>status = 400, body = JObj [(''error'', JStr
                     ''Invalid or expired reset token. Please request a new password reset.'')]\<rparr>))
    \<and> (\<forall>db0 e2 errors2 email. used_preserved (passwordResets db0)
          (passwordResets (db_after (forgotPassword l e2 db0 errors2 email))))
    \<and> (\<forall>db0 e2 errors2 b2. used_preserved (passwordResets db0)
          (passwordResets (db_after (resetPassword l e2 db0 errors2 b2))))"
proof -
  from reset_success_D [OF assms(1)] assms(2) obtain r user where
    errs: "errors = []" and
    f: "fault e \<noteq> Some 0" "fault e \<noteq> Some 1" "fault e \<noteq> Some 2" "fault e \<noteq> Some 3"
       "fault e \<noteq> Some 4" and
    rec: "find (valid_reset (sha256 l token) (Date_now e)) (passwordResets db) = Some r" and
    usr: "find (\<lambda>u. u_id u = pr_userId r) (users db) = Some user"
    by auto
  let ?db' = "db_after (resetPassword l e db errors b)"
  note r = find_valid_reset_SomeD [OF rec]
  then have first: "\<exists>r\<in>set (passwordResets db).
      pr_tokenHash r = sha256 l token \<and> \<not> pr_used r \<and> Date_now e < pr_expiresAt r"
    by blast
  have "passwordResets ?db' = save_reset (r\<lparr>pr_used := True\<rparr>) (passwordResets db)"
    using reset_eval [OF assms(2) rec usr f] errs by simp
  with save_reset_consumes [OF assms(3), of r] r
  have used: "\<forall>d\<in>set (passwordResets ?db'). pr_tokenHash d = sha256 l token \<longrightarrow> pr_used d"
    by simp
  have again: "\<forall>e2 errors2 b2. rb_token b2 = Some token \<longrightarrow>
      db_after (resetPassword l e2 ?db' errors2 b2) = ?db'
      \<and> status (res (resetPassword l e2 ?db' errors2 b2)) \<noteq> 200
      \<and> (errors2 = [] \<and> fault e2 \<noteq> Some 0 \<longrightarrow>
           res (resetPassword l e2 ?db' errors2 b2)
             = \<lparr>status = 400, body = JObj [(''error'', JStr
                 ''Invalid or expired reset token. Please request a new password reset.'')]\<rparr>)"
  proof (intro allI impI)
    fix e2 :: env and errors2 :: "verror list" and b2 :: reset_body
    assume t: "rb_token b2 = Some token"
    have none: "find (valid_reset (sha256 l token) (Date_now e2)) (passwordResets ?db') = None"
      using used by (rule find_valid_reset_None)
    from reset_without_valid_record [of b2 token l e2 ?db' errors2] t none
    show "db_after (resetPassword l e2 ?db' errors2 b2) = ?db'
      \<and> status (res (resetPassword l e2 ?db' errors2 b2)) \<noteq> 200
      \<and> (errors2 = [] \<and> fault e2 \<noteq> Some 0 \<longrightarrow>
           res (resetPassword l e2 ?db' errors2 b2)
             = \<lparr>status = 400, body = JObj [(''error'', JStr
                 ''Invalid or expired reset token. Please request a new password reset.'')]\<rparr>)"
      by (simp add: reset_invalid_def status_json_def json_error_def)
  qed
  have fp: "\<forall>db0 e2 errors2 email. used_preserved (passwordResets db0)
      (passwordResets (db_after (forgotPassword l e2 db0 errors2 email)))"
    by (simp add: forgot_used_preserved)
  have rp: "\<forall>db0 e2 errors2 b2. used_preserved (passwordResets db0)
      (passwordResets (db_after (resetPassword l e2 db0 errors2 b2)))"
    by (simp add: reset_used_preserved)
  show ?thesis
    by (rule conjI [OF first conjI [OF used conjI [OF again conjI [OF fp rp]]]])
qed

text \<open>Alice's token is presented twice: 200, then 400 with the database unchanged.\<close>

lemma ex_hashes: "hashes_identify (passwordResets ex_db_pending)"
  by (simp add: hashes_identify_def ex_db_pending_def)

theorem C2_reset_token_one_shot_witness:
  "status (res (resetPassword ex_lib ex_env_later ex_db_pending [] ex_reset_body)) = 200
   \<and> res (resetPassword ex_lib ex_env_later
        (db_after (resetPassword ex_lib ex_env_later ex_db_pending [] ex_reset_body))
        [] ex_reset_body)
      = \<lparr>status = 400, body = JObj [(''error'', JStr
          ''Invalid or expired reset token. Please request a new password reset.'')]\<rparr>
   \<and> db_after (resetPassword ex_lib ex_env_later
        (db_after (resetPassword ex_lib ex_env_later ex_db_pending [] ex_reset_body))
        [] ex_reset_body)
      = db_after (resetPassword ex_lib ex_env_later ex_db_pending [] ex_reset_body)"
proof -
  have ok: "status (res (resetPassword ex_lib ex_env_later ex_db_pending [] ex_reset_body)) = 200"
    by (simp add: ex_reset_succeeds reset_ok_def res_json_def status_json_def)
  have t: "rb_token ex_reset_body = Some (js ex_token)"
    by (simp add: ex_reset_body_def ex_body_def)
  have f: "fault ex_env_later \<noteq> Some 0" by (simp add: ex_env_later_def ex_env_def)
  note again = C2_reset_token_one_shot [OF ok t ex_hashes, THEN conjunct2, THEN conjunct2,
      THEN conjunct1, rule_format, of ex_reset_body ex_env_later "[]"]
  from again t f ok show ?thesis by simp
qed

section \<open>Issuing a reset token\<close>

lemma forgot_issue_eval:
  assumes "fault e = None"
    and "find (\<lambda>u. u_email u = toLowerCase l email) (users db) = Some user"
    and "\<not> (truthy (u_googleId user) \<and> \<not> truthy (u_passwordHash user))"
  shows "forgotPassword l e db [] email =
    \<lparr>res = forgot_ok,
     db_after = db\<lparr>passwordResets := invalidate_resets (u_id user) (passwordResets db)
        @ [new_reset e (u_id user) (sha256 l (js (generateToken e)))]\<rparr>,
     effects = [Await ''User.findOne'', RandomBytes 32, Hash (js (generateToken e)),
                Await ''PasswordReset.updateMany'', Await ''PasswordReset.create'']
        @ snd (sendPasswordResetEmail e email (generateToken e) (u_name user))\<rparr>"
  using assms by (simp add: forgotPassword_def Let_def generateToken_def)

lemma hex_digit_lower: "n < 16 \<Longrightarrow> hex_digit n \<in> set ''0123456789abcdef''"
  unfolding hex_digit_def by (rule nth_mem) simp

lemma hex_byte_lower: "set (hex_byte b) \<subseteq> set ''0123456789abcdef''"
proof -
  have "unat b < 256" using unsigned_less [of b] by simp
  then have "unat b div 16 < 16" by simp
  moreover have "unat b mod 16 < 16" by simp
  ultimately show ?thesis
    using hex_digit_lower [of "unat b div 16"] hex_digit_lower [of "unat b mod 16"]
    by (simp add: hex_byte_def)
qed

lemma toHex_lower: "set (toHex bs) \<subseteq> set ''0123456789abcdef''"
  using hex_byte_lower by (induction bs) (auto simp add: toHex_def)

lemma length_toHex: "length (toHex bs) = 2 * length bs"
  by (induction bs) (simp_all add: toHex_def hex_byte_def)

lemma generateToken_shape:
  "length (generateToken e) = 64 \<and> set (generateToken e) \<subseteq> set ''0123456789abcdef''"
  using toHex_lower [of "randomBytes e 32"]
  by (simp add: generateToken_def length_toHex randomBytes_def)

lemma console_of_mail:
  "transporter e = Some t \<Longrightarrow>
   console_of (snd (sendPasswordResetEmail e email tok userName)) =
     (case sendMail_error e of
        None \<Rightarrow> [ConsoleLog [[CHR 0xE2, CHR 0x9C, CHR 0x85]
                    @ '' Password reset email sent to '' @ email]]
      | Some err \<Rightarrow> [ConsoleError [[CHR 0xE2, CHR 0x9D, CHR 0x8C]
                    @ '' Failed to send password reset email:'', err]])"
  by (simp add: sendPasswordResetEmail_def console_of_def Let_def split: option.splits)

lemma mail_of_mail:
  "transporter e = Some t \<Longrightarrow>
   \<exists>m. SendMail m \<in> set (snd (sendPasswordResetEmail e email tok userName))
     \<and> m_to m = email \<and> m_userName m = userName \<and> m_resetUrl m = resetUrl_of e tok"
  by (simp add: sendPasswordResetEmail_def Let_def split: option.splits)

lemma console_of_dev:
  "transporter e = None \<Longrightarrow>
   console_of (snd (sendPasswordResetEmail e email tok userName)) =
     [ConsoleError [''Email service not configured''],
      ConsoleLog [[CHR 0xF0, CHR 0x9F, CHR 0x93, CHR 0xA7]
                    @ '' Password Reset Email (Development Mode):''],
      ConsoleLog [''   To: '' @ email],
      ConsoleLog [''   Reset URL: '' @ resetUrl_of e tok],
      ConsoleLog [''   Token expires in 15 minutes'']]"
  by (simp add: sendPasswordResetEmail_def console_of_def)

lemma no_mail_dev:
  "transporter e = None \<Longrightarrow>
   SendMail m \<notin> set (snd (sendPasswordResetEmail e email tok userName))"
  by (simp add: sendPasswordResetEmail_def)

lemma console_of_append: "console_of (xs @ ys) = console_of xs @ console_of ys"
  by (simp add: console_of_def)


text \<open>
  C6 (amended).  A forgot-password call that reaches issuance (validation passed, no
  persistence call rejecting, the address belonging to a user who is not Google-only)
  draws 32 bytes from the random source and hex-encodes them into a plaintext token of
  64 lower-case hexadecimal characters.  It persists one new record, holding the
  SHA-256 digest of the plaintext, the user, \<open>expiresAt\<close> = time of the call + 15 minutes
  and \<open>used = false\<close>; nothing else of the database changes besides the invalidation of
  the user's earlier records.  The response is the fixed success message.  With a mail
  transport configured the plaintext goes into the reset link of the mail and the only
  log line names the address (or the delivery error).  Without a mail transport no mail
  is sent and the reset link, plaintext token included, is written to the log.
\<close>

theorem C6_reset_token_issuance:
  assumes "fault e = None"
    and "find (\<lambda>u. u_email u = toLowerCase l email) (users db) = Some user"
    and "\<not> (truthy (u_googleId user) \<and> \<not> truthy (u_passwordHash user))"
  shows "generateToken e = toHex (map (randomSource e) [0..<32])
    \<and> length (generateToken e) = 64
    \<and> set (generateToken e) \<subseteq> set ''0123456789abcdef''
    \<and> db_after (forgotPassword l e db [] email) =
        db\<lparr>passwordResets := invalidate_resets (u_id user) (passwordResets db)
          @ [\<lparr>pr_id = newObjectId e, pr_userId = u_id user,
              pr_tokenHash = sha256 l (js (generateToken e)),
              pr_expiresAt = Date_now e + 15 * 60 * 1000, pr_used = False\<rparr>]\<rparr>
    \<and> res (forgotPassword l e db [] email)
        = \<lparr>status = 200, body = JObj [(''message'', JStr successMessage)]\<rparr>
    \<and> (transporter e \<noteq> None \<longrightarrow>
         (\<exists>m. SendMail m \<in> set (effects (forgotPassword l e db [] email))
            \<and> m_to m = email \<and> m_resetUrl m = resetUrl_of e (generateToken e))
         \<and> console_of (effects (forgotPassword l e db [] email)) =
             (case sendMail_error e of
                None \<Rightarrow> [ConsoleLog [[CHR 0xE2, CHR 0x9C, CHR 0x85]
                            @ '' Password reset email sent to '' @ email]]
              | Some err \<Rightarrow> [ConsoleError [[CHR 0xE2, CHR 0x9D, CHR 0x8C]
                            @ '' Failed to send password reset email:'', err]]))
    \<and> (transporter e = None \<longrightarrow>
         (\<forall>m. SendMail m \<notin> set (effects (forgotPassword l e db [] email)))
         \<and> console_of (effects (forgotPassword l e db [] email)) =
           [ConsoleError [''Email service not configured''],
            ConsoleLog [[CHR 0xF0, CHR 0x9F, CHR 0x93, CHR 0xA7]
                          @ '' Password Reset Email (Development Mode):''],
            ConsoleLog [''   To: '' @ email],
            ConsoleLog [''   Reset URL: '' @ resetUrl_of e (generateToken e)],
            ConsoleLog [''   Token expires in 15 minutes'']])"
proof -
  note ev = forgot_issue_eval [OF assms]
  have tok: "generateToken e = toHex (map (randomSource e) [0..<32])"
    by (simp add: generateToken_def randomBytes_def)
  have dbs: "db_after (forgotPassword l e db [] email) =
        db\<lparr>passwordResets := invalidate_resets (u_id user) (passwordResets db)
          @ [\<lparr>pr_id = newObjectId e, pr_userId = u_id user,
              pr_tokenHash = sha256 l (js (generateToken e)),
              pr_expiresAt = Date_now e + 15 * 60 * 1000, pr_used = False\<rparr>]\<rparr>"
    by (simp add: ev new_reset_def)
  have rsp: "res (forgotPassword l e db [] email)
        = \<lparr>status = 200, body = JObj [(''message'', JStr successMessage)]\<rparr>"
    by (simp add: ev forgot_ok_def res_json_def status_json_def)
  have cfg: "transporter e \<noteq> None \<longrightarrow>
         (\<exists>m. SendMail m \<in> set (effects (forgotPassword l e db [] email))
            \<and> m_to m = email \<and> m_resetUrl m = resetUrl_of e (generateToken e))
         \<and> console_of (effects (forgotPassword l e db [] email)) =
             (case sendMail_error e of
                None \<Rightarrow> [ConsoleLog [[CHR 0xE2, CHR 0x9C, CHR 0x85]
                            @ '' Password reset email sent to '' @ email]]
              | Some err \<Rightarrow> [ConsoleError [[CHR 0xE2, CHR 0x9D, CHR 0x8C]
                            @ '' Failed to send password reset email:'', err]])"
  proof
    assume "transporter e \<noteq> None"
    then obtain t where t: "transporter e = Some t" by auto
    from mail_of_mail [OF t, of email "generateToken e" "u_name user"]
    have "\<exists>m. SendMail m \<in> set (effects (forgotPassword l e db [] email))
            \<and> m_to m = email \<and> m_resetUrl m = resetUrl_of e (generateToken e)"
      by (auto simp add: ev)
    moreover have "console_of (effects (forgotPassword l e db [] email)) =
             (case sendMail_error e of
                None \<Rightarrow> [ConsoleLog [[CHR 0xE2, CHR 0x9C, CHR 0x85]
                            @ '' Password reset email sent to '' @ email]]
              | Some err \<Rightarrow> [ConsoleError [[CHR 0xE2, CHR 0x9D, CHR 0x8C]
                            @ '' Failed to send password reset email:'', err]])"
      unfolding ev using console_of_mail [OF t, of email "generateToken e" "u_name user"]
      by (simp add: console_of_append) (simp add: console_of_def)
    ultimately show "(\<exists>m. SendMail m \<in> set (effects (forgotPassword l e db [] email))
            \<and> m_to m = email \<and> m_resetUrl m = resetUrl_of e (generateToken e))
         \<and> console_of (effects (forgotPassword l e db [] email)) =
             (case sendMail_error e of
                None \<Rightarrow> [ConsoleLog [[CHR 0xE2, CHR 0x9C, CHR 0x85]
                            @ '' Password reset email sent to '' @ email]]
              | Some err \<Rightarrow> [ConsoleError [[CHR 0xE2, CHR 0x9D, CHR 0x8C]
                            @ '' Failed to send password reset email:'', err]])"
      by (rule conjI)
  qed
  have dev: "transporter e = None \<longrightarrow>
         (\<forall>m. SendMail m \<notin> set (effects (forgotPassword l e db [] email)))
         \<and> console_of (effects (forgotPassword l e db [] email)) =
           [ConsoleError [''Email service not configured''],
            ConsoleLog [[CHR 0xF0, CHR 0x9F, CHR 0x93, CHR 0xA7]
                          @ '' Password Reset Email (Development Mode):''],
            ConsoleLog [''   To: '' @ email],
            ConsoleLog [''   Reset URL: '' @ resetUrl_of e (generateToken e)],
            ConsoleLog [''   Token expires in 15 minutes'']]"
  proof
    assume t: "transporter e = None"
    have nomail: "\<forall>m. SendMail m \<notin> set (effects (forgotPassword l e db [] email))"
      unfolding ev using no_mail_dev [OF t, of _ email "generateToken e" "u_name user"]
      by simp
    have logs: "console_of (effects (forgotPassword l e db [] email)) =
           [ConsoleError [''Email service not configured''],
            ConsoleLog [[CHR 0xF0, CHR 0x9F, CHR 0x93, CHR 0xA7]
                          @ '' Password Reset Email (Development Mode):''],
            ConsoleLog [''   To: '' @ email],
            ConsoleLog [''   Reset URL: '' @ resetUrl_of e (generateToken e)],
            ConsoleLog [''   Token expires in 15 minutes'']]"
      unfolding ev using console_of_dev [OF t, of email "generateToken e" "u_name user"]
      by (simp add: console_of_append) (simp add: console_of_def)
    from nomail logs
    show "(\<forall>m. SendMail m \<notin> set (effects (forgotPassword l e db [] email)))
         \<and> console_of (effects (forgotPassword l e db [] email)) =
           [ConsoleError [''Email service not configured''],
            ConsoleLog [[CHR 0xF0, CHR 0x9F, CHR 0x93, CHR 0xA7]
                          @ '' Password Reset Email (Development Mode):''],
            ConsoleLog [''   To: '' @ email],
            ConsoleLog [''   Reset URL: '' @ resetUrl_of e (generateToken e)],
            ConsoleLog [''   Token expires in 15 minutes'']]"
      by (rule conjI)
  qed
  from generateToken_shape [of e] have len: "length (generateToken e) = 64"
    and hex: "set (generateToken e) \<subseteq> set ''0123456789abcdef''" by blast+
  show ?thesis
    by (rule conjI [OF tok conjI [OF len conjI [OF hex conjI [OF dbs conjI [OF rsp
          conjI [OF cfg dev]]]]]])
qed


text \<open>Issuance for Alice, with the mail transport configured and without it.\<close>

lemma ex_tokens: "generateToken ex_env = ex_token" "generateToken ex_env_mail = ex_token"
  using ex_token_random
  by (simp_all add: generateToken_def randomBytes_def ex_env_mail_def)

theorem C6_reset_token_issuance_witness:
  "generateToken ex_env_mail = ex_token
   \<and> length ex_token = 64
   \<and> passwordResets (db_after (forgotPassword ex_lib ex_env_mail ex_db [] ''A@mictech.edu.in''))
       = [\<lparr>pr_id = 50, pr_userId = 7, pr_tokenHash = ''h:'' @ ex_token,
           pr_expiresAt = 901000, pr_used = False\<rparr>]
   \<and> console_of (effects (forgotPassword ex_lib ex_env_mail ex_db [] ''A@mictech.edu.in''))
       = [ConsoleLog [[CHR 0xE2, CHR 0x9C, CHR 0x85]
            @ '' Password reset email sent to A@mictech.edu.in'']]"
proof -
  note c = C6_reset_token_issuance [OF ex_env_fault(2) ex_find_alice(1) ex_alice_capable]
  have t: "transporter ex_env_mail \<noteq> None" by (simp add: ex_env_mail_def)
  have s: "sendMail_error ex_env_mail = None" by (simp add: ex_env_mail_def ex_env_def)
  from c have len: "length (generateToken ex_env_mail) = 64" by blast
  from c have "db_after (forgotPassword ex_lib ex_env_mail ex_db [] ''A@mictech.edu.in'') =
        ex_db\<lparr>passwordResets := invalidate_resets (u_id ex_alice) (passwordResets ex_db)
          @ [\<lparr>pr_id = newObjectId ex_env_mail, pr_userId = u_id ex_alice,
              pr_tokenHash = sha256 ex_lib (js (generateToken ex_env_mail)),
              pr_expiresAt = Date_now ex_env_mail + 15 * 60 * 1000, pr_used = False\<rparr>]\<rparr>"
    by blast
  then have "passwordResets
      (db_after (forgotPassword ex_lib ex_env_mail ex_db [] ''A@mictech.edu.in''))
       = invalidate_resets (u_id ex_alice) (passwordResets ex_db)
          @ [\<lparr>pr_id = newObjectId ex_env_mail, pr_userId = u_id ex_alice,
              pr_tokenHash = sha256 ex_lib (js ex_token),
              pr_expiresAt = Date_now ex_env_mail + 15 * 60 * 1000, pr_used = False\<rparr>]"
    by (simp add: ex_tokens)
  also have "\<dots> = [\<lparr>pr_id = 50, pr_userId = 7, pr_tokenHash = ''h:'' @ ex_token,
           pr_expiresAt = 901000, pr_used = False\<rparr>]"
    by (simp add: ex_db_def ex_alice_def ex_sha ex_env_mail_def ex_env_def
        invalidate_resets_def updateMany_def)
  finally have recs:
    "passwordResets (db_after (forgotPassword ex_lib ex_env_mail ex_db [] ''A@mictech.edu.in''))
       = [\<lparr>pr_id = 50, pr_userId = 7, pr_tokenHash = ''h:'' @ ex_token,
           pr_expiresAt = 901000, pr_used = False\<rparr>]" .
  from c t have "console_of (effects (forgotPassword ex_lib ex_env_mail ex_db [] ''A@mictech.edu.in'')) =
             (case sendMail_error ex_env_mail of
                None \<Rightarrow> [ConsoleLog [[CHR 0xE2, CHR 0x9C, CHR 0x85]
                            @ '' Password reset email sent to '' @ ''A@mictech.edu.in'']]
              | Some err \<Rightarrow> [ConsoleError [[CHR 0xE2, CHR 0x9D, CHR 0x8C]
                            @ '' Failed to send password reset email:'', err]])"
    by blast
  with s have logs:
    "console_of (effects (forgotPassword ex_lib ex_env_mail ex_db [] ''A@mictech.edu.in''))
       = [ConsoleLog [[CHR 0xE2, CHR 0x9C, CHR 0x85]
            @ '' Password reset email sent to A@mictech.edu.in'']]"
    by simp
  from len recs logs show ?thesis by (simp add: ex_tokens)
qed

text \<open>
  C6 as stated fails where no mail transport is configured: the plaintext token is then
  written to the log, inside the reset URL.
\<close>

theorem C6_token_logged_counterexample:
  "transporter ex_env = None
   \<and> generateToken ex_env = ex_token
   \<and> console_of (effects (forgotPassword ex_lib ex_env ex_db [] ''a@mictech.edu.in'')) =
       [ConsoleError [''Email service not configured''],
        ConsoleLog [[CHR 0xF0, CHR 0x9F, CHR 0x93, CHR 0xA7]
                      @ '' Password Reset Email (Development Mode):''],
        ConsoleLog [''   To: a@mictech.edu.in''],
        ConsoleLog [''   Reset URL: http://localhost:3000/auth/reset-password?token=''
                      @ ex_token],
        ConsoleLog [''   Token expires in 15 minutes'']]"
proof -
  have t: "transporter ex_env = None" by (simp add: ex_env_def)
  have u: "resetUrl_of ex_env ex_token
             = ''http://localhost:3000/auth/reset-password?token='' @ ex_token"
    by (simp add: resetUrl_of_def ex_env_def)
  note ev = forgot_issue_eval [OF ex_env_fault(1) ex_find_alice(2) ex_alice_capable]
  have "console_of (effects (forgotPassword ex_lib ex_env ex_db [] ''a@mictech.edu.in'')) =
       [ConsoleError [''Email service not configured''],
        ConsoleLog [[CHR 0xF0, CHR 0x9F, CHR 0x93, CHR 0xA7]
                      @ '' Password Reset Email (Development Mode):''],
        ConsoleLog [''   To: a@mictech.edu.in''],
        ConsoleLog [''   Reset URL: http://localhost:3000/auth/reset-password?token=''
                      @ ex_token],
        ConsoleLog [''   Token expires in 15 minutes'']]"
    unfolding ev using console_of_dev [OF t, of "''a@mictech.edu.in''" ex_token "u_name ex_alice"]
    by (simp add: console_of_append ex_tokens u) (simp add: console_of_def)
  with t ex_tokens(1) show ?thesis by simp
qed

section \<open>One active reset token per user\<close>

lemma unused_invalidate_same: "unused_of u (invalidate_resets u docs) = []"
  by (induction docs) (simp_all add: unused_of_def invalidate_resets_def updateMany_def)

lemma unused_invalidate_other:
  "v \<noteq> u \<Longrightarrow> unused_of u (invalidate_resets v docs) = unused_of u docs"
  by (induction docs) (simp_all add: unused_of_def invalidate_resets_def updateMany_def)

lemma unused_append:
  "unused_of u (docs @ [d]) =
     unused_of u docs @ (if pr_userId d = u \<and> \<not> pr_used d then [d] else [])"
  by (simp add: unused_of_def)

lemma active_le_unused: "length (active_of u now docs) \<le> length (unused_of u docs)"
  by (induction docs) (simp_all add: active_of_def unused_of_def)

lemma forgot_users: "users (db_after (forgotPassword l e db errors email)) = users db"
  by (simp add: forgotPassword_def Let_def caught_def split: option.splits)

lemma forgot_resets_cases:
  "passwordResets (db_after (forgotPassword l e db errors email)) = passwordResets db
   \<or> (\<exists>user. find (\<lambda>u. u_email u = toLowerCase l email) (users db) = Some user
        \<and> (passwordResets (db_after (forgotPassword l e db errors email))
              = invalidate_resets (u_id user) (passwordResets db)
            \<or> passwordResets (db_after (forgotPassword l e db errors email))
              = invalidate_resets (u_id user) (passwordResets db)
                  @ [new_reset e (u_id user) (sha256 l (js (generateToken e)))]))"
  by (simp add: forgotPassword_def Let_def caught_def generateToken_def split: option.splits)

lemma forgot_step_unused:
  assumes "length (unused_of u (passwordResets db)) \<le> 1"
  shows "length (unused_of u (passwordResets (db_after (forgotPassword l e db errors email)))) \<le> 1"
proof -
  let ?docs' = "passwordResets (db_after (forgotPassword l e db errors email))"
  from forgot_resets_cases [of l e db errors email]
  consider "?docs' = passwordResets db"
    | v where "?docs' = invalidate_resets v (passwordResets db)"
    | v h where "?docs' = invalidate_resets v (passwordResets db) @ [new_reset e v h]"
    by blast
  then show ?thesis
  proof cases
    case 1
    with assms show ?thesis by simp
  next
    case 2
    with assms show ?thesis
      by (cases "v = u") (simp_all add: unused_invalidate_same unused_invalidate_other)
  next
    case 3
    with assms show ?thesis
      by (cases "v = u")
        (simp_all add: unused_append unused_invalidate_same unused_invalidate_other new_reset_def)
  qed
qed

lemma forgot_calls_unused:
  "length (unused_of u (passwordResets db)) \<le> 1 \<Longrightarrow>
   length (unused_of u (passwordResets (forgot_calls l db cs))) \<le> 1"
proof (induction cs arbitrary: db)
  case Nil
  then show ?case by simp
next
  case (Cons c cs)
  from forgot_step_unused [OF Cons.prems] Cons.IH show ?case by simp
qed

lemma forgot_calls_snoc:
  "forgot_calls l db (cs @ [c]) =
     db_after (forgotPassword l (fc_env c) (forgot_calls l db cs) (fc_errors c) (fc_email c))"
  by (induction cs arbitrary: db) simp_all

lemma forgot_calls_users: "users (forgot_calls l db cs) = users db"
  by (induction cs arbitrary: db) (simp_all add: forgot_users)

lemma hash_owned_invalidate:
  "hash_owned h u docs \<Longrightarrow> hash_owned h u (invalidate_resets v docs)"
  by (auto simp add: hash_owned_def invalidate_resets_def updateMany_def)

lemma hash_owned_append:
  "hash_owned h u docs \<Longrightarrow> hash_owned h u (docs @ [new_reset e u h'])"
  by (auto simp add: hash_owned_def new_reset_def)

lemma forgot_step_owned:
  assumes "hash_owned h (u_id user) (passwordResets db)"
    and "find (\<lambda>u. u_email u = toLowerCase l email) (users db) = Some user"
  shows "hash_owned h (u_id user)
           (passwordResets (db_after (forgotPassword l e db errors email)))"
  using forgot_resets_cases [of l e db errors email] assms
  by (auto simp add: hash_owned_invalidate hash_owned_append)

lemma forgot_calls_owned:
  assumes "find (\<lambda>u. u_email u = toLowerCase l email) (users db) = Some user"
    and "\<forall>c\<in>set cs. fc_email c = email"
    and "hash_owned h (u_id user) (passwordResets db)"
  shows "hash_owned h (u_id user) (passwordResets (forgot_calls l db cs))"
  using assms
proof (induction cs arbitrary: db)
  case Nil
  then show ?case by simp
next
  case (Cons c cs)
  let ?db1 = "db_after (forgotPassword l (fc_env c) db (fc_errors c) (fc_email c))"
  from Cons.prems have e: "fc_email c = email" by simp
  have "find (\<lambda>u. u_email u = toLowerCase l email) (users ?db1) = Some user"
    using Cons.prems(1) by (simp add: forgot_users)
  moreover from Cons.prems have "\<forall>c\<in>set cs. fc_email c = email" by simp
  moreover have "hash_owned h (u_id user) (passwordResets ?db1)"
    using forgot_step_owned [OF Cons.prems(3) Cons.prems(1), of "fc_env c" "fc_errors c"] e
    by simp
  ultimately show ?case using Cons.IH [of ?db1] by simp
qed

lemma invalidate_all_used:
  assumes "d \<in> set (invalidate_resets u docs)" and "pr_userId d = u"
  shows "pr_used d"
proof -
  from assms(1)
  have "d \<in> (\<lambda>d0. if pr_userId d0 = u \<and> \<not> pr_used d0 then d0\<lparr>pr_used := True\<rparr> else d0)
          ` set docs"
    by (simp add: invalidate_resets_def updateMany_def)
  then obtain d0
    where d: "d = (if pr_userId d0 = u \<and> \<not> pr_used d0 then d0\<lparr>pr_used := True\<rparr> else d0)"
    by (rule imageE)
  show ?thesis
  proof (cases "pr_userId d0 = u \<and> \<not> pr_used d0")
    case True
    with d show ?thesis by simp
  next
    case False
    with d assms(2) show ?thesis by simp
  qed
qed

lemma earlier_token_invalid:
  assumes "hash_owned h u docs" and "h \<noteq> h'"
  shows "find (valid_reset h now) (invalidate_resets u docs @ [new_reset e u h']) = None"
proof -
  from assms(1) have "hash_owned h u (invalidate_resets u docs)"
    by (rule hash_owned_invalidate)
  then have "\<forall>d\<in>set (invalidate_resets u docs). pr_tokenHash d = h \<longrightarrow> pr_used d"
    using invalidate_all_used by (simp add: hash_owned_def)
  with assms(2) show ?thesis
    by (auto simp add: find_None_iff valid_reset_def new_reset_def)
qed


text \<open>What the handler leaves in the collection is what the static \<open>createReset\<close> computes.\<close>

lemma createReset_collection:
  "fst (createReset l e docs userId) =
     invalidate_resets userId docs @ [new_reset e userId (sha256 l (js (generateToken e)))]"
  by (simp add: createReset_def Let_def generateToken_def)

text \<open>
  C1.  Take a user with a password who has at most one unused reset record (none, in a
  fresh database).  After any sequence of forgot-password calls, whatever their
  addresses, validation results and failures, at most one record of the user is unused
  and unexpired, at every time.  When, after a sequence of calls for the user's address,
  one more call for it is issued and completes, the handler first awaits \<open>updateMany\<close>
  and then \<open>create\<close>: the collection is the previous one with every unused record of the
  user marked used, followed by the new record, which is then the user's only unused
  record.  Verifying any other token of the user then fails at every time: any plaintext
  whose digest differs from the new one's and occurs, if at all, only in records of this
  user (as the digest of a token issued earlier in the sequence does).
\<close>

theorem C1_single_active_reset:
  assumes "find (\<lambda>u. u_email u = toLowerCase l email) (users db) = Some user"
    and "\<not> (truthy (u_googleId user) \<and> \<not> truthy (u_passwordHash user))"
    and "\<forall>c\<in>set cs. fc_email c = email"
    and "length (unused_of (u_id user) (passwordResets db)) \<le> 1"
  shows "(\<forall>cs' now.
            length (active_of (u_id user) now (passwordResets (forgot_calls l db cs'))) \<le> 1)
    \<and> (\<forall>c. fc_email c = email \<and> fc_errors c = [] \<and> fault (fc_env c) = None \<longrightarrow>
          take 5 (effects (forgotPassword l (fc_env c) (forgot_calls l db cs) [] email))
            = [Await ''User.findOne'', RandomBytes 32, Hash (js (generateToken (fc_env c))),
               Await ''PasswordReset.updateMany'', Await ''PasswordReset.create'']
          \<and> passwordResets (forgot_calls l db (cs @ [c]))
            = invalidate_resets (u_id user) (passwordResets (forgot_calls l db cs))
                @ [new_reset (fc_env c) (u_id user) (sha256 l (js (generateToken (fc_env c))))]
          \<and> unused_of (u_id user) (passwordResets (forgot_calls l db (cs @ [c])))
            = [new_reset (fc_env c) (u_id user) (sha256 l (js (generateToken (fc_env c))))]
          \<and> (\<forall>t e'. sha256 l t \<noteq> sha256 l (js (generateToken (fc_env c)))
                  \<and> hash_owned (sha256 l t) (u_id user) (passwordResets db) \<longrightarrow>
                verifyToken l e' (passwordResets (forgot_calls l db (cs @ [c]))) t = None))"
proof (intro conjI allI impI)
  fix cs' now
  have "length (active_of (u_id user) now (passwordResets (forgot_calls l db cs')))
          \<le> length (unused_of (u_id user) (passwordResets (forgot_calls l db cs')))"
    by (rule active_le_unused)
  also have "\<dots> \<le> 1"
    using assms(4) by (rule forgot_calls_unused)
  finally show "length (active_of (u_id user) now (passwordResets (forgot_calls l db cs'))) \<le> 1" .
next
  fix c :: forgot_call
  assume c: "fc_email c = email \<and> fc_errors c = [] \<and> fault (fc_env c) = None"
  let ?db = "forgot_calls l db cs"
  let ?new = "new_reset (fc_env c) (u_id user) (sha256 l (js (generateToken (fc_env c))))"
  have usr: "find (\<lambda>u. u_email u = toLowerCase l email) (users ?db) = Some user"
    using assms(1) by (simp add: forgot_calls_users)
  from c have f: "fault (fc_env c) = None" by simp
  note ev = forgot_issue_eval [OF f usr assms(2)]
  show "take 5 (effects (forgotPassword l (fc_env c) ?db [] email))
            = [Await ''User.findOne'', RandomBytes 32, Hash (js (generateToken (fc_env c))),
               Await ''PasswordReset.updateMany'', Await ''PasswordReset.create'']"
    by (simp add: ev)
  show step: "passwordResets (forgot_calls l db (cs @ [c]))
            = invalidate_resets (u_id user) (passwordResets ?db) @ [?new]"
    using c by (simp add: forgot_calls_snoc ev)
  show "unused_of (u_id user) (passwordResets (forgot_calls l db (cs @ [c]))) = [?new]"
    unfolding step by (simp add: unused_append unused_invalidate_same) (simp add: new_reset_def)
  fix t and e' :: env
  assume t: "sha256 l t \<noteq> sha256 l (js (generateToken (fc_env c)))
    \<and> hash_owned (sha256 l t) (u_id user) (passwordResets db)"
  then have "hash_owned (sha256 l t) (u_id user) (passwordResets ?db)"
    using forgot_calls_owned [OF assms(1) assms(3), of "sha256 l t"] by simp
  with t show "verifyToken l e' (passwordResets (forgot_calls l db (cs @ [c]))) t = None"
    unfolding step verifyToken_def by (simp add: earlier_token_invalid)
qed

text \<open>
  Alice asks twice.  The first token verifies after the first call and no longer after
  the second; the record of the second call is her only unused one.
\<close>

lemma ex_tokens_differ: "sha256 ex_lib (js ex_token) \<noteq> sha256 ex_lib (js ex_token2)"
  unfolding ex_sha by code_simp

lemma ex_token2_random: "generateToken ex_env2 = ex_token2"
  by code_simp

lemma ex_after_call1: "passwordResets (forgot_calls ex_lib ex_db [ex_call1]) = [ex_pending]"
proof -
  note ev = forgot_issue_eval [OF ex_env_fault(1) ex_find_alice(2) ex_alice_capable]
  have "passwordResets (forgot_calls ex_lib ex_db [ex_call1])
          = invalidate_resets (u_id ex_alice) (passwordResets ex_db)
              @ [new_reset ex_env (u_id ex_alice) (sha256 ex_lib (js ex_token))]"
    by (simp add: ex_call1_def ev ex_tokens)
  also have "\<dots> = [ex_pending]"
    by (simp add: ex_db_def ex_alice_def ex_sha ex_env_def ex_pending_def new_reset_def
        invalidate_resets_def updateMany_def)
  finally show ?thesis .
qed

theorem C1_single_active_reset_witness:
  "verifyToken ex_lib ex_env2 (passwordResets (forgot_calls ex_lib ex_db [ex_call1]))
     (js ex_token)
     = Some ex_pending
   \<and> verifyToken ex_lib ex_env2
       (passwordResets (forgot_calls ex_lib ex_db [ex_call1, ex_call2])) (js ex_token) = None
   \<and> unused_of 7 (passwordResets (forgot_calls ex_lib ex_db [ex_call1, ex_call2]))
       = [new_reset ex_env2 7 (sha256 ex_lib (js ex_token2))]
   \<and> length (active_of 7 2000 (passwordResets (forgot_calls ex_lib ex_db [ex_call1, ex_call2])))
       \<le> 1"
proof -
  have calls: "\<forall>c\<in>set [ex_call1]. fc_email c = ''a@mictech.edu.in''"
    by (simp add: ex_call1_def)
  have one: "length (unused_of (u_id ex_alice) (passwordResets ex_db)) \<le> 1"
    by (simp add: ex_db_def unused_of_def)
  note c = C1_single_active_reset [OF ex_find_alice(2) ex_alice_capable calls one]
  have uid: "u_id ex_alice = 7" by (simp add: ex_alice_def)
  have c2: "fc_email ex_call2 = ''a@mictech.edu.in'' \<and> fc_errors ex_call2 = []
      \<and> fault (fc_env ex_call2) = None"
    by (simp add: ex_call2_def ex_env2_def ex_env_def)
  have env2: "fc_env ex_call2 = ex_env2" by (simp add: ex_call2_def)
  have own: "hash_owned (sha256 ex_lib (js ex_token)) (u_id ex_alice) (passwordResets ex_db)"
    by (simp add: hash_owned_def ex_db_def)
  from c [THEN conjunct1, rule_format, of 2000 "[ex_call1, ex_call2]"]
  have a: "length (active_of 7 2000
      (passwordResets (forgot_calls ex_lib ex_db [ex_call1, ex_call2]))) \<le> 1"
    by (simp del: forgot_calls.simps add: uid)
  note b = c [THEN conjunct2, rule_format, of ex_call2, OF c2]
  from b [THEN conjunct2, THEN conjunct2, THEN conjunct1]
  have u: "unused_of 7 (passwordResets (forgot_calls ex_lib ex_db [ex_call1, ex_call2]))
       = [new_reset ex_env2 7 (sha256 ex_lib (js ex_token2))]"
    by (simp del: forgot_calls.simps add: uid env2 ex_token2_random)
  from b [THEN conjunct2, THEN conjunct2, THEN conjunct2, rule_format, of "js ex_token" ex_env2]
    own ex_tokens_differ
  have v: "verifyToken ex_lib ex_env2
       (passwordResets (forgot_calls ex_lib ex_db [ex_call1, ex_call2])) (js ex_token) = None"
    by (simp del: forgot_calls.simps add: env2 ex_token2_random)
  have w: "verifyToken ex_lib ex_env2 (passwordResets (forgot_calls ex_lib ex_db [ex_call1]))
      (js ex_token) = Some ex_pending"
    unfolding ex_after_call1
    by (simp add: verifyToken_def valid_reset_def ex_pending_def ex_sha
        ex_env2_def ex_env_def)
  from w v u a show ?thesis by (simp del: forgot_calls.simps)
qed

end
